theory Spec2Isabelle
  imports Complex_Main "HOL-Library.Word" "HOL-Library.Signed_Division"
begin

unbundle bit_operations_syntax

section \<open>Data model of Platform.cpp\<close>

text \<open>
  The embedding follows \<^verbatim>\<open>src/Platform.cpp\<close>. C++ \<^verbatim>\<open>uint16_t\<close> and \<^verbatim>\<open>uint32_t\<close> values are
  16-bit and 32-bit words, \<^verbatim>\<open>float\<close> values are idealised as reals, and C++ \<^verbatim>\<open>int\<close>
  values that the code never lets overflow on the inputs considered are mathematical
  integers. Member arrays are lists. The mutable members of the \<^verbatim>\<open>Platform\<close> object,
  together with the pieces of hardware it drives (flash block, pins, ADC channel enables),
  form one state record that every operation takes and returns.
\<close>

type_synonym uint16_t = "16 word"
type_synonym uint32_t = "32 word"
type_synonym byte = "8 word"

subsection \<open>Averaging filter\<close>

text \<open>
  Modelled from the spec: the class template \<^verbatim>\<open>AveragingFilter<N>\<close> is declared in
  \<^verbatim>\<open>Platform.h\<close>, which is not among the sources. Section 3 and 4.1 of the specification
  describe it as a circular buffer of \<open>N\<close> raw samples with a running sum and a fill count.
  The capacity \<open>N\<close> is the template argument and is passed explicitly.
\<close>

record AveragingFilter =
  readings :: "uint16_t list"
  cursor :: nat
  runningSum :: uint32_t
  fillCount :: nat

text \<open>
  Modelled from the spec: \<^verbatim>\<open>Init(initialValue)\<close> resets the fill count to zero and pre-seeds
  the buffer with the initial value repeated \<open>N\<close> times, so that the sum is meaningful
  immediately.
\<close>

definition Init :: "nat \<Rightarrow> uint16_t \<Rightarrow> AveragingFilter" where
  "Init N val =
     \<lparr>readings = replicate N val, cursor = 0,
      runningSum = of_nat N * ucast val, fillCount = 0\<rparr>"

text \<open>
  Modelled from the spec: \<^verbatim>\<open>ProcessReading(x)\<close> subtracts the sample at the write cursor from
  the running sum, overwrites it with \<open>x\<close>, adds \<open>x\<close> to the sum, advances the cursor modulo
  \<open>N\<close> and increments the fill count until it saturates at \<open>N\<close>.
\<close>

definition ProcessReading :: "nat \<Rightarrow> AveragingFilter \<Rightarrow> uint16_t \<Rightarrow> AveragingFilter" where
  "ProcessReading N f x =
     \<lparr>readings = (readings f)[cursor f := x],
      cursor = (cursor f + 1) mod N,
      runningSum = runningSum f - ucast (readings f ! cursor f) + ucast x,
      fillCount = min N (fillCount f + 1)\<rparr>"

text \<open>Modelled from the spec: \<^verbatim>\<open>GetSum()\<close> returns the running total.\<close>

definition GetSum :: "AveragingFilter \<Rightarrow> uint32_t" where
  "GetSum f = runningSum f"

text \<open>
  Modelled from the spec: \<^verbatim>\<open>IsValid()\<close> is true once the buffer has been filled at least
  once, that is once the fill count has reached \<open>N\<close>.
\<close>

definition IsValid :: "nat \<Rightarrow> AveragingFilter \<Rightarrow> bool" where
  "IsValid N f \<longleftrightarrow> N \<le> fillCount f"

text \<open>
  Modelled from the spec: the invariant of the filter stated in section 3, the running sum
  is the exact total of the samples in the buffer; together with the shape of the buffer.
\<close>

definition AveragingFilter_inv :: "nat \<Rightarrow> AveragingFilter \<Rightarrow> bool" where
  "AveragingFilter_inv N f \<longleftrightarrow>
     length (readings f) = N \<and> cursor f < N \<and> fillCount f \<le> N
     \<and> runningSum f = word_of_int (sum_list (map uint (readings f)))"

subsection \<open>Compile-time constants\<close>

text \<open>
  The constants below are declared in headers that are not among the sources, so their
  values are parameters of the model.
\<close>

record constants =
  HEATERS :: nat
  AXES :: nat
  numThermistorReadingsAveraged :: nat
  numZProbeReadingsAveraged :: nat
  adDisconnectedReal :: nat
  adDisconnectedVirtual :: int
  adRangeVirtual :: nat
  ErrorBadTemp :: uint32_t
  HEAT_ON :: int
  Z_PROBE_MOD_PIN :: int
  magicValue :: uint32_t

text \<open>
  Modelled from the spec: the type of \<^verbatim>\<open>numZProbeReadingsAveraged\<close> is declared in
  \<^verbatim>\<open>Platform.h\<close>, which is not among the sources. By the usual arithmetic conversions of
  C++ it decides whether the division in the modulated-IR branch of \<^verbatim>\<open>Platform::ZProbe\<close>,
  whose dividend is an \<^verbatim>\<open>int32_t\<close>, is a signed or an unsigned 32-bit division. Section 4.3
  of the specification says that this quotient uses signed arithmetic, so the constant is
  taken to have a signed type.
\<close>

definition numZProbeReadingsAveraged_signed :: bool where
  "numZProbeReadingsAveraged_signed = True"

text \<open>
  Modelled from the spec: \<^verbatim>\<open>ABS_ZERO\<close> is declared in a header that is not among the
  sources. The comments of \<^verbatim>\<open>Platform::GetTemperature\<close> give it: the reference temperature
  25 C is 298.15 K, and -273.15 is added to a temperature in kelvin to get degrees Celsius.
\<close>

definition ABS_ZERO :: real where
  "ABS_ZERO = - 273.15"

subsection \<open>PidParameters\<close>

record PidParameters =
  kI :: real
  kD :: real
  kP :: real
  kT :: real
  kS :: real
  fullBand :: real
  pidMin :: real
  pidMax :: real
  thermistorBeta :: real
  thermistorInfR :: real
  thermistorSeriesR :: real
  adcLowOffset :: real
  adcHighOffset :: real

definition UsePID :: "PidParameters \<Rightarrow> bool" where
  "UsePID p \<longleftrightarrow> kP p \<ge> 0"

definition GetThermistorR25 :: "PidParameters \<Rightarrow> real" where
  "GetThermistorR25 p = thermistorInfR p * exp (thermistorBeta p / (25 - ABS_ZERO))"

definition SetThermistorR25AndBeta :: "real \<Rightarrow> real \<Rightarrow> PidParameters \<Rightarrow> PidParameters" where
  "SetThermistorR25AndBeta r25 beta p =
     (let p1 = p\<lparr>thermistorInfR := r25 * exp (- beta / (25 - ABS_ZERO))\<rparr>
      in p1\<lparr>thermistorBeta := beta\<rparr>)"



text \<open>\<^verbatim>\<open>PidParameters::operator==\<close>, field by field in the order of the source.\<close>

definition PidParameters_eq :: "PidParameters \<Rightarrow> PidParameters \<Rightarrow> bool" where
  "PidParameters_eq p other \<longleftrightarrow>
     kI p = kI other \<and> kD p = kD other \<and> kP p = kP other \<and> kT p = kT other \<and> kS p = kS other
     \<and> fullBand p = fullBand other \<and> pidMin p = pidMin other
     \<and> pidMax p = pidMax other \<and> thermistorBeta p = thermistorBeta other
     \<and> thermistorInfR p = thermistorInfR other
     \<and> thermistorSeriesR p = thermistorSeriesR other \<and> adcLowOffset p = adcLowOffset other
     \<and> adcHighOffset p = adcHighOffset other"

subsection \<open>The non-volatile record and the platform state\<close>

text \<open>
  \<^verbatim>\<open>enum Compatibility\<close> is declared in a header that is not among the sources; the code
  names three of its values, every other value is \<open>otherFirmware\<close>.
\<close>

datatype Compatibility = me | reprapFirmware | marlin | otherFirmware nat

text \<open>
  \<^verbatim>\<open>struct FlashData\<close>. The type \<open>'zp\<close> stands for \<^verbatim>\<open>struct ZProbeParameters\<close>, whose
  declaration is not among the sources: the code modelled here only initialises, copies and
  compares values of it.
\<close>

record 'zp FlashData =
  magic :: uint32_t
  compatibility :: Compatibility
  ipAddress :: "byte list"
  netMask :: "byte list"
  gateWay :: "byte list"
  macAddress :: "byte list"
  zProbeType :: int
  zProbeAxes :: "bool list"
  switchZProbeParameters :: 'zp
  irZProbeParameters :: 'zp
  alternateZProbeParameters :: 'zp
  pidParams :: "PidParameters list"
  resetReason :: "16 word"
  neverUsedRam :: nat

datatype PinMode = OUTPUT | INPUT_PULLUP

text \<open>
  The members of \<^verbatim>\<open>Platform\<close> used by the functions below, followed by the hardware they
  act on: \<open>flash\<close> is the block at \<^verbatim>\<open>nvAddress\<close> and \<open>flashWrites\<close> counts the calls of
  \<^verbatim>\<open>DueFlashStorage::write\<close>; \<open>pinModes\<close>, \<open>digitalOut\<close> and \<open>analogOut\<close> hold what was last
  written to each pin; \<open>adcEnabled\<close> is the set of enabled ADC channels.
\<close>

record 'zp Platform =
  nvData :: "'zp FlashData"
  tickState :: nat
  currentHeater :: nat
  errorCodeBits :: uint32_t
  thermistorFilters :: "AveragingFilter list"
  zProbeOnFilter :: AveragingFilter
  zProbeOffFilter :: AveragingFilter
  thermistorOverheatSums :: "uint32_t list"
  heaterAdcChannels :: "nat list"
  zProbeAdcChannel :: nat
  zProbeModulationPin :: int
  heatOnPins :: "int list"
  flash :: "'zp FlashData"
  flashWrites :: nat
  pinModes :: "int \<rightharpoonup> PinMode"
  digitalOut :: "int \<rightharpoonup> bool"
  analogOut :: "int \<rightharpoonup> int"
  adcEnabled :: "nat set"

section \<open>Hardware access\<close>

definition pinModeNonDue :: "int \<Rightarrow> PinMode \<Rightarrow> 'zp Platform \<Rightarrow> 'zp Platform" where
  "pinModeNonDue pin m s = s\<lparr>pinModes := (pinModes s)(pin \<mapsto> m)\<rparr>"

definition digitalWriteNonDue :: "int \<Rightarrow> bool \<Rightarrow> 'zp Platform \<Rightarrow> 'zp Platform" where
  "digitalWriteNonDue pin level s = s\<lparr>digitalOut := (digitalOut s)(pin \<mapsto> level)\<rparr>"

definition analogWriteNonDue :: "int \<Rightarrow> int \<Rightarrow> 'zp Platform \<Rightarrow> 'zp Platform" where
  "analogWriteNonDue pin v s = s\<lparr>analogOut := (analogOut s)(pin \<mapsto> v)\<rparr>"

abbreviation (input) HIGH :: bool where "HIGH \<equiv> True"
abbreviation (input) LOW :: bool where "LOW \<equiv> False"

text \<open>
  \<^verbatim>\<open>Platform::GetAdcReading\<close> returns the converted value of the channel, which the hardware
  supplies (the argument \<open>adc\<close>), and disables the channel.
\<close>

definition GetAdcReading :: "(nat \<Rightarrow> uint16_t) \<Rightarrow> nat \<Rightarrow> 'zp Platform \<Rightarrow> uint16_t \<times> 'zp Platform" where
  "GetAdcReading adc chan s = (adc chan, s\<lparr>adcEnabled := adcEnabled s - {chan}\<rparr>)"

definition StartAdcConversion :: "nat \<Rightarrow> 'zp Platform \<Rightarrow> 'zp Platform" where
  "StartAdcConversion chan s = s\<lparr>adcEnabled := insert chan (adcEnabled s)\<rparr>"

definition WriteNvData :: "'zp Platform \<Rightarrow> 'zp Platform" where
  "WriteNvData s = s\<lparr>flash := nvData s, flashWrites := flashWrites s + 1\<rparr>"

section \<open>The Z probe\<close>

definition SetZProbing :: "bool \<Rightarrow> 'zp Platform \<Rightarrow> 'zp Platform" where
  "SetZProbing starting s = s"

definition InitZProbe :: "constants \<Rightarrow> 'zp Platform \<Rightarrow> 'zp Platform" where
  "InitZProbe c s =
     (let s1 = s\<lparr>zProbeOnFilter := Init (numZProbeReadingsAveraged c) 0\<rparr>;
          s2 = s1\<lparr>zProbeOffFilter := Init (numZProbeReadingsAveraged c) 0\<rparr>
      in if zProbeType (nvData s2) = 1 \<or> zProbeType (nvData s2) = 2 then
           SetZProbing False
             (digitalWriteNonDue (zProbeModulationPin s2) HIGH
               (pinModeNonDue (zProbeModulationPin s2) OUTPUT s2))
         else if zProbeType (nvData s2) = 3 then
           SetZProbing False
             (digitalWriteNonDue (zProbeModulationPin s2) LOW
               (pinModeNonDue (zProbeModulationPin s2) OUTPUT s2))
         else s2)"

text \<open>
  Signed 32-bit division of C++ (truncation towards zero) on words, and the conversion of a
  32-bit result to \<^verbatim>\<open>int\<close>.
\<close>

definition sdiv32 :: "uint32_t \<Rightarrow> uint32_t \<Rightarrow> uint32_t" where
  "sdiv32 a b = word_of_int (sint a sdiv sint b)"

text \<open>
  \<^verbatim>\<open>Platform::ZProbe\<close>. In the branch of type 2 the two sums are cast to \<^verbatim>\<open>int32_t\<close>
  and subtracted; the quotient by \<^verbatim>\<open>4 * numZProbeReadingsAveraged\<close> is a signed division
  when that constant has a signed type, and an unsigned one otherwise.
\<close>

definition ZProbe :: "constants \<Rightarrow> 'zp Platform \<Rightarrow> int" where
  "ZProbe c s =
     (if IsValid (numZProbeReadingsAveraged c) (zProbeOnFilter s)
         \<and> IsValid (numZProbeReadingsAveraged c) (zProbeOffFilter s) then
        (if zProbeType (nvData s) = 1 \<or> zProbeType (nvData s) = 3 then
           sint ((GetSum (zProbeOnFilter s) + GetSum (zProbeOffFilter s))
                   div of_nat (8 * numZProbeReadingsAveraged c))
         else if zProbeType (nvData s) = 2 then
           (if numZProbeReadingsAveraged_signed then
              sint (sdiv32 (GetSum (zProbeOnFilter s) - GetSum (zProbeOffFilter s))
                      (of_nat (4 * numZProbeReadingsAveraged c)))
            else
              sint ((GetSum (zProbeOnFilter s) - GetSum (zProbeOffFilter s))
                      div of_nat (4 * numZProbeReadingsAveraged c)))
         else 0)
      else 0)"

definition GetZProbeType :: "'zp Platform \<Rightarrow> int" where
  "GetZProbeType s = zProbeType (nvData s)"

definition SetZProbeType :: "constants \<Rightarrow> int \<Rightarrow> 'zp Platform \<Rightarrow> 'zp Platform" where
  "SetZProbeType c pt s =
     (let newZProbeType = (if pt \<ge> 0 \<and> pt \<le> 3 then pt else 0);
          s1 = (if newZProbeType \<noteq> zProbeType (nvData s)
                then WriteNvData (s\<lparr>nvData := (nvData s)\<lparr>zProbeType := newZProbeType\<rparr>\<rparr>)
                else s)
      in InitZProbe c s1)"

text \<open>
  \<^verbatim>\<open>Platform::SetZProbeAxes\<close>: the loop copies \<^verbatim>\<open>AXES\<close> flags, then the record is written.
\<close>

definition SetZProbeAxes :: "constants \<Rightarrow> bool list \<Rightarrow> 'zp Platform \<Rightarrow> 'zp Platform" where
  "SetZProbeAxes c axes s =
     WriteNvData
       (s\<lparr>nvData := (nvData s)\<lparr>zProbeAxes :=
            fold (\<lambda>axis za. za[axis := axes ! axis]) [0..<AXES c] (zProbeAxes (nvData s))\<rparr>\<rparr>)"

text \<open>
  \<^verbatim>\<open>Platform::SetZProbeParameters\<close>; \<^verbatim>\<open>operator!=\<close> of \<^verbatim>\<open>ZProbeParameters\<close> is inequality of
  the values.
\<close>

definition SetZProbeParameters :: "'zp \<Rightarrow> 'zp Platform \<Rightarrow> bool \<times> 'zp Platform" where
  "SetZProbeParameters params s =
     (if zProbeType (nvData s) = 0 then
        (True, if switchZProbeParameters (nvData s) \<noteq> params
               then WriteNvData (s\<lparr>nvData := (nvData s)\<lparr>switchZProbeParameters := params\<rparr>\<rparr>)
               else s)
      else if zProbeType (nvData s) = 1 \<or> zProbeType (nvData s) = 2 then
        (True, if irZProbeParameters (nvData s) \<noteq> params
               then WriteNvData (s\<lparr>nvData := (nvData s)\<lparr>irZProbeParameters := params\<rparr>\<rparr>)
               else s)
      else if zProbeType (nvData s) = 3 then
        (True, if alternateZProbeParameters (nvData s) \<noteq> params
               then WriteNvData (s\<lparr>nvData := (nvData s)\<lparr>alternateZProbeParameters := params\<rparr>\<rparr>)
               else s)
      else (False, s))"

section \<open>Emulation mode and network identity\<close>

text \<open>\<^verbatim>\<open>Platform::SetEmulating\<close>; the error message of the first branch is not modelled.\<close>

definition SetEmulating :: "Compatibility \<Rightarrow> 'zp Platform \<Rightarrow> 'zp Platform" where
  "SetEmulating c0 s =
     (if c0 \<noteq> me \<and> c0 \<noteq> reprapFirmware \<and> c0 \<noteq> marlin then s
      else
        (let c = (if c0 = reprapFirmware then me else c0)
         in if c \<noteq> compatibility (nvData s)
            then WriteNvData (s\<lparr>nvData := (nvData s)\<lparr>compatibility := c\<rparr>\<rparr>)
            else s))"

text \<open>
  The loop of \<^verbatim>\<open>Platform::UpdateNetworkAddress\<close> over the four bytes: the new destination
  and the flag \<^verbatim>\<open>changed\<close>.
\<close>

definition UpdateNetworkAddress_loop :: "byte list \<Rightarrow> byte list \<Rightarrow> byte list \<times> bool" where
  "UpdateNetworkAddress_loop dst src =
     fold (\<lambda>i (d, changed). if d ! i \<noteq> src ! i then (d[i := src ! i], True) else (d, changed))
          [0..<4] (dst, False)"

definition SetIPAddress :: "byte list \<Rightarrow> 'zp Platform \<Rightarrow> 'zp Platform" where
  "SetIPAddress ip s =
     (let (dst, changed) = UpdateNetworkAddress_loop (ipAddress (nvData s)) ip;
          s1 = s\<lparr>nvData := (nvData s)\<lparr>ipAddress := dst\<rparr>\<rparr>
      in if changed then WriteNvData s1 else s1)"

definition SetGateWay :: "byte list \<Rightarrow> 'zp Platform \<Rightarrow> 'zp Platform" where
  "SetGateWay gw s =
     (let (dst, changed) = UpdateNetworkAddress_loop (gateWay (nvData s)) gw;
          s1 = s\<lparr>nvData := (nvData s)\<lparr>gateWay := dst\<rparr>\<rparr>
      in if changed then WriteNvData s1 else s1)"

definition SetNetMask :: "byte list \<Rightarrow> 'zp Platform \<Rightarrow> 'zp Platform" where
  "SetNetMask nm s =
     (let (dst, changed) = UpdateNetworkAddress_loop (netMask (nvData s)) nm;
          s1 = s\<lparr>nvData := (nvData s)\<lparr>netMask := dst\<rparr>\<rparr>
      in if changed then WriteNvData s1 else s1)"

section \<open>Heaters and thermistors\<close>

text \<open>The C++ conversion of a \<^verbatim>\<open>float\<close> to an integer type truncates towards zero.\<close>

definition int_of_float :: "real \<Rightarrow> int" where
  "int_of_float x = (if x \<ge> 0 then \<lfloor>x\<rfloor> else \<lceil>x\<rceil>)"



definition SetPidParameters :: "constants \<Rightarrow> nat \<Rightarrow> PidParameters \<Rightarrow> 'zp Platform \<Rightarrow> 'zp Platform" where
  "SetPidParameters c heater params s =
     (if heater < HEATERS c \<and> \<not> PidParameters_eq params (pidParams (nvData s) ! heater)
      then WriteNvData (s\<lparr>nvData := (nvData s)\<lparr>pidParams := (pidParams (nvData s))[heater := params]\<rparr>\<rparr>)
      else s)"

definition GetPidParameters :: "nat \<Rightarrow> 'zp Platform \<Rightarrow> PidParameters" where
  "GetPidParameters heater s = pidParams (nvData s) ! heater"

text \<open>
  \<^verbatim>\<open>Platform::SetHeater\<close>: the power \<open>pwr\<close> is clamped to \<open>[0,1]\<close>, scaled to a byte and written to the
  heater's pin, inverted when \<^verbatim>\<open>HEAT_ON\<close> is 0. A heater without a pin is left alone.
\<close>

definition SetHeater :: "constants \<Rightarrow> nat \<Rightarrow> real \<Rightarrow> 'zp Platform \<Rightarrow> 'zp Platform" where
  "SetHeater c heater pwr s =
     (if heatOnPins s ! heater < 0 then s
      else
        (let p = (word_of_int (int_of_float (255 * min 1 (max 0 pwr))) :: byte)
         in analogWriteNonDue (heatOnPins s ! heater)
              (if HEAT_ON c = 0 then 255 - uint p else uint p) s))"

section \<open>The tick interrupt\<close>

text \<open>
  \<^verbatim>\<open>Platform::Tick\<close>, one definition for each group of \<^verbatim>\<open>case\<close> labels. The symbol
  \<^verbatim>\<open>TIME_TICK_ISR\<close> is not defined, so the timing code is absent. The argument \<open>adc\<close>
  gives the conversion result that the hardware holds for each channel at this tick.
\<close>

definition Tick_thermistor :: "constants \<Rightarrow> (nat \<Rightarrow> uint16_t) \<Rightarrow> 'zp Platform \<Rightarrow> 'zp Platform" where
  "Tick_thermistor c adc s =
     (let h = currentHeater s;
          (r, s1) = GetAdcReading adc (heaterAdcChannels s ! h) s;
          currentFilter = ProcessReading (numThermistorReadingsAveraged c) (thermistorFilters s1 ! h) r;
          s2 = s1\<lparr>thermistorFilters := (thermistorFilters s1)[h := currentFilter]\<rparr>;
          s3 = StartAdcConversion (zProbeAdcChannel s2) s2;
          s4 = (if IsValid (numThermistorReadingsAveraged c) currentFilter then
                  (let sm = GetSum currentFilter
                   in if sm < thermistorOverheatSums s3 ! h
                         \<or> sm \<ge> of_nat (adDisconnectedReal c * numThermistorReadingsAveraged c)
                      then (let s' = SetHeater c h 0 s3
                            in s'\<lparr>errorCodeBits := errorCodeBits s' OR ErrorBadTemp c\<rparr>)
                      else s3)
                else s3);
          s5 = s4\<lparr>currentHeater := currentHeater s4 + 1\<rparr>;
          s6 = (if currentHeater s5 = HEATERS c then s5\<lparr>currentHeater := 0\<rparr> else s5)
      in s6\<lparr>tickState := tickState s6 + 1\<rparr>)"

definition Tick_probeOn :: "constants \<Rightarrow> (nat \<Rightarrow> uint16_t) \<Rightarrow> 'zp Platform \<Rightarrow> 'zp Platform" where
  "Tick_probeOn c adc s =
     (let (r, s1) = GetAdcReading adc (zProbeAdcChannel s) s;
          s2 = s1\<lparr>zProbeOnFilter := ProcessReading (numZProbeReadingsAveraged c) (zProbeOnFilter s1) r\<rparr>;
          s3 = StartAdcConversion (heaterAdcChannels s2 ! currentHeater s2) s2;
          s4 = (if zProbeType (nvData s3) = 2 then digitalWriteNonDue (Z_PROBE_MOD_PIN c) LOW s3 else s3)
      in s4\<lparr>tickState := tickState s4 + 1\<rparr>)"

definition Tick_probeOff :: "constants \<Rightarrow> (nat \<Rightarrow> uint16_t) \<Rightarrow> 'zp Platform \<Rightarrow> 'zp Platform" where
  "Tick_probeOff c adc s =
     (let (r, s1) = GetAdcReading adc (zProbeAdcChannel s) s
      in s1\<lparr>zProbeOffFilter := ProcessReading (numZProbeReadingsAveraged c) (zProbeOffFilter s1) r\<rparr>)"

definition Tick_default :: "constants \<Rightarrow> 'zp Platform \<Rightarrow> 'zp Platform" where
  "Tick_default c s =
     (let s1 = StartAdcConversion (heaterAdcChannels s ! currentHeater s) s;
          s2 = (if zProbeType (nvData s1) = 2 then digitalWriteNonDue (Z_PROBE_MOD_PIN c) HIGH s1 else s1)
      in s2\<lparr>tickState := 1\<rparr>)"

definition Tick :: "constants \<Rightarrow> (nat \<Rightarrow> uint16_t) \<Rightarrow> 'zp Platform \<Rightarrow> 'zp Platform" where
  "Tick c adc s =
     (if tickState s = 1 \<or> tickState s = 3 then Tick_thermistor c adc s
      else if tickState s = 2 then Tick_probeOn c adc s
      else if tickState s = 4 then Tick_default c (Tick_probeOff c adc s)
      else Tick_default c s)"

text \<open>A run of the interrupt: one \<open>adc\<close> per tick, in order.\<close>

fun Ticks :: "constants \<Rightarrow> 'zp Platform \<Rightarrow> (nat \<Rightarrow> uint16_t) list \<Rightarrow> 'zp Platform" where
  "Ticks c s [] = s"
| "Ticks c s (adc # adcs) = Ticks c (Tick c adc s) adcs"

text \<open>
  The samples that a run feeds to the probe's on-filter (the ticks taken in state 2) and to
  its off-filter (the ticks taken in state 4).
\<close>

fun probeOnReadings :: "constants \<Rightarrow> 'zp Platform \<Rightarrow> (nat \<Rightarrow> uint16_t) list \<Rightarrow> uint16_t list" where
  "probeOnReadings c s [] = []"
| "probeOnReadings c s (adc # adcs) =
     (if tickState s = 2 then [adc (zProbeAdcChannel s)] else []) @ probeOnReadings c (Tick c adc s) adcs"

fun probeOffReadings :: "constants \<Rightarrow> 'zp Platform \<Rightarrow> (nat \<Rightarrow> uint16_t) list \<Rightarrow> uint16_t list" where
  "probeOffReadings c s [] = []"
| "probeOffReadings c s (adc # adcs) =
     (if tickState s = 4 then [adc (zProbeAdcChannel s)] else []) @ probeOffReadings c (Tick c adc s) adcs"

section \<open>Loading the non-volatile record\<close>

text \<open>
  The compiled-in defaults that \<^verbatim>\<open>Platform::Init\<close> stores; they are declared in headers that
  are not among the sources. \<open>ZProbeParameters_Init h\<close> is the value that
  \<^verbatim>\<open>ZProbeParameters::Init(h)\<close> leaves in the structure.
\<close>

record 'zp defaults =
  IP_ADDRESS :: "byte list"
  NET_MASK :: "byte list"
  GATE_WAY :: "byte list"
  MAC_ADDRESS :: "byte list"
  Z_PROBE_AXES :: "bool list"
  Z_PROBE_STOP_HEIGHT :: real
  ZProbeParameters_Init :: "real \<Rightarrow> 'zp"
  defaultThermistorSeriesRs :: "nat \<Rightarrow> real"
  defaultThermistor25RS :: "nat \<Rightarrow> real"
  defaultThermistorBetas :: "nat \<Rightarrow> real"
  defaultPidKis :: "nat \<Rightarrow> real"
  defaultPidKds :: "nat \<Rightarrow> real"
  defaultPidKps :: "nat \<Rightarrow> real"
  defaultPidKts :: "nat \<Rightarrow> real"
  defaultPidKss :: "nat \<Rightarrow> real"
  defaultFullBand :: "nat \<Rightarrow> real"
  defaultPidMin :: "nat \<Rightarrow> real"
  defaultPidMax :: "nat \<Rightarrow> real"

text \<open>The body of the loop over the heaters in \<^verbatim>\<open>Platform::Init\<close>.\<close>

definition Init_pidParams :: "'zp defaults \<Rightarrow> nat \<Rightarrow> PidParameters \<Rightarrow> PidParameters" where
  "Init_pidParams d i pp =
     (let pp1 = pp\<lparr>thermistorSeriesR := defaultThermistorSeriesRs d i\<rparr>;
          pp2 = SetThermistorR25AndBeta (defaultThermistor25RS d i) (defaultThermistorBetas d i) pp1;
          pp3 = pp2\<lparr>kI := defaultPidKis d i\<rparr>;
          pp4 = pp3\<lparr>kD := defaultPidKds d i\<rparr>;
          pp5 = pp4\<lparr>kP := defaultPidKps d i\<rparr>;
          pp6 = pp5\<lparr>kT := defaultPidKts d i\<rparr>;
          pp7 = pp6\<lparr>kS := defaultPidKss d i\<rparr>;
          pp8 = pp7\<lparr>fullBand := defaultFullBand d i\<rparr>;
          pp9 = pp8\<lparr>pidMin := defaultPidMin d i\<rparr>;
          pp10 = pp9\<lparr>pidMax := defaultPidMax d i\<rparr>;
          pp11 = pp10\<lparr>adcHighOffset := 0\<rparr>
      in pp11\<lparr>adcLowOffset := 0\<rparr>)"

text \<open>
  The part of \<^verbatim>\<open>Platform::Init\<close> that loads the non-volatile record (from the call of
  \<^verbatim>\<open>DueFlashStorage::read\<close> to the end of the branch on the magic value). The argument
  \<open>neverUsed\<close> is what \<^verbatim>\<open>GetStackUsage\<close> measures. The rest of \<^verbatim>\<open>Platform::Init\<close> sets up
  files, drives and pins and is not modelled.
\<close>

definition Platform_Init :: "constants \<Rightarrow> 'zp defaults \<Rightarrow> nat \<Rightarrow> 'zp Platform \<Rightarrow> 'zp Platform" where
  "Platform_Init c d neverUsed s =
     (let s1 = s\<lparr>nvData := flash s\<rparr>
      in if magic (nvData s1) \<noteq> magicValue c then
           (let nv1 = (nvData s1)
                  \<lparr>compatibility := me,
                   ipAddress := IP_ADDRESS d,
                   netMask := NET_MASK d,
                   gateWay := GATE_WAY d,
                   macAddress := MAC_ADDRESS d,
                   zProbeType := 0,
                   zProbeAxes := Z_PROBE_AXES d,
                   switchZProbeParameters := ZProbeParameters_Init d 0,
                   irZProbeParameters := ZProbeParameters_Init d (Z_PROBE_STOP_HEIGHT d),
                   alternateZProbeParameters := ZProbeParameters_Init d (Z_PROBE_STOP_HEIGHT d)\<rparr>;
                nv2 = nv1\<lparr>pidParams :=
                        fold (\<lambda>i ps. ps[i := Init_pidParams d i (ps ! i)]) [0..<HEATERS c] (pidParams nv1)\<rparr>;
                nv3 = nv2\<lparr>resetReason := 0\<rparr>;
                nv4 = nv3\<lparr>neverUsedRam := neverUsed\<rparr>;
                nv5 = nv4\<lparr>magic := magicValue c\<rparr>
            in WriteNvData (s1\<lparr>nvData := nv5\<rparr>))
         else s1)"

section \<open>Example configuration and state\<close>

text \<open>
  A small configuration (two heaters, four thermistor samples and eight probe samples per
  average) and a platform state just after start-up; the concrete instances below are built
  from them.
\<close>

definition example_constants :: constants where
  "example_constants =
     \<lparr>HEATERS = 2, AXES = 3, numThermistorReadingsAveraged = 4, numZProbeReadingsAveraged = 8,
      adDisconnectedReal = 4092,
      adDisconnectedVirtual = 8184, adRangeVirtual = 8191, ErrorBadTemp = 1, HEAT_ON = 0,
      Z_PROBE_MOD_PIN = 52, magicValue = 0x59B1\<rparr>"

definition example_pid :: PidParameters where
  "example_pid =
     \<lparr>kI = 0, kD = 0, kP = 1, kT = 0, kS = 1, fullBand = 5, pidMin = 0, pidMax = 255,
      thermistorBeta = 0, thermistorInfR = 10000, thermistorSeriesR = 1000,
      adcLowOffset = 0, adcHighOffset = 0\<rparr>"

definition example_nvData :: "real FlashData" where
  "example_nvData =
     \<lparr>magic = 0x59B1, compatibility = me, ipAddress = [192, 168, 1, 10],
      netMask = [255, 255, 255, 0], gateWay = [192, 168, 1, 1],
      macAddress = [0xBE, 0xEF, 0xDE, 0xAD, 0xFE, 0xED],
      zProbeType = 0, zProbeAxes = [True, False, True],
      switchZProbeParameters = 0, irZProbeParameters = 1, alternateZProbeParameters = 1,
      pidParams = [example_pid, example_pid], resetReason = 0, neverUsedRam = 0\<rparr>"

text \<open>
  Filters holding the same sample \<open>v\<close> in every slot, with fill count \<open>n\<close>: of capacity 4 for
  a thermistor and of capacity 8 for the probe.
\<close>

definition example_thermistor_filter :: "nat \<Rightarrow> uint16_t \<Rightarrow> AveragingFilter" where
  "example_thermistor_filter n v =
     \<lparr>readings = [v, v, v, v], cursor = 0, runningSum = 4 * ucast v, fillCount = n\<rparr>"

definition example_probe_filter :: "nat \<Rightarrow> uint16_t \<Rightarrow> AveragingFilter" where
  "example_probe_filter n v =
     \<lparr>readings = [v, v, v, v, v, v, v, v], cursor = 0, runningSum = 8 * ucast v, fillCount = n\<rparr>"

definition example_Platform :: "real Platform" where
  "example_Platform =
     \<lparr>nvData = example_nvData, tickState = 0, currentHeater = 0, errorCodeBits = 0,
      thermistorFilters = [Init 4 0, Init 4 0],
      zProbeOnFilter = Init 8 0, zProbeOffFilter = Init 8 0,
      thermistorOverheatSums = [400, 400], heaterAdcChannels = [5, 4], zProbeAdcChannel = 7,
      zProbeModulationPin = 52, heatOnPins = [6, 8],
      flash = example_nvData, flashWrites = 0,
      pinModes = Map.empty, digitalOut = Map.empty, analogOut = Map.empty, adcEnabled = {}\<rparr>"


definition example_defaults :: "real defaults" where
  "example_defaults =
     \<lparr>IP_ADDRESS = [192, 168, 1, 10], NET_MASK = [255, 255, 255, 0], GATE_WAY = [192, 168, 1, 1],
      MAC_ADDRESS = [0xBE, 0xEF, 0xDE, 0xAD, 0xFE, 0xED],
      Z_PROBE_AXES = [True, False, True], Z_PROBE_STOP_HEIGHT = 0.7,
      ZProbeParameters_Init = (\<lambda>h. h),
      defaultThermistorSeriesRs = (\<lambda>i. 1000), defaultThermistor25RS = (\<lambda>i. 10000),
      defaultThermistorBetas = (\<lambda>i. 3988),
      defaultPidKis = (\<lambda>i. 2), defaultPidKds = (\<lambda>i. 80), defaultPidKps = (\<lambda>i. 12),
      defaultPidKts = (\<lambda>i. 0.02), defaultPidKss = (\<lambda>i. 0.9), defaultFullBand = (\<lambda>i. 5),
      defaultPidMin = (\<lambda>i. 0), defaultPidMax = (\<lambda>i. 125)\<rparr>"

section \<open>Arithmetic of 32-bit values\<close>







section \<open>Fields left unchanged by the operations\<close>

lemma nvData_InitZProbe: "nvData (InitZProbe c s) = nvData s"
  by (simp add: InitZProbe_def Let_def SetZProbing_def digitalWriteNonDue_def pinModeNonDue_def)

lemma nvData_WriteNvData: "nvData (WriteNvData s) = nvData s"
  by (simp add: WriteNvData_def)

lemma int_of_float_neg: "x < 0 \<Longrightarrow> int_of_float x \<le> 0"
  by (simp add: int_of_float_def)


lemmas Tick_thermistor_unfold =
  Tick_thermistor_def GetAdcReading_def StartAdcConversion_def SetHeater_def
  analogWriteNonDue_def Let_def

lemmas Tick_probe_unfold =
  Tick_probeOn_def Tick_probeOff_def Tick_default_def GetAdcReading_def StartAdcConversion_def
  digitalWriteNonDue_def Let_def

lemma tickState_Tick_thermistor: "tickState (Tick_thermistor c adc s) = tickState s + 1"
  by (simp add: Tick_thermistor_unfold)

lemma currentHeater_Tick_thermistor:
  "currentHeater (Tick_thermistor c adc s) =
     (if currentHeater s + 1 = HEATERS c then 0 else currentHeater s + 1)"
  by (simp add: Tick_thermistor_unfold)

lemma thermistorFilters_Tick_thermistor:
  "thermistorFilters (Tick_thermistor c adc s) =
     (thermistorFilters s)[currentHeater s :=
        ProcessReading (numThermistorReadingsAveraged c) (thermistorFilters s ! currentHeater s)
          (adc (heaterAdcChannels s ! currentHeater s))]"
  by (simp add: Tick_thermistor_unfold)

lemma probe_Tick_thermistor:
  "zProbeOnFilter (Tick_thermistor c adc s) = zProbeOnFilter s"
  "zProbeOffFilter (Tick_thermistor c adc s) = zProbeOffFilter s"
  "nvData (Tick_thermistor c adc s) = nvData s"
  "zProbeAdcChannel (Tick_thermistor c adc s) = zProbeAdcChannel s"
  by (simp_all add: Tick_thermistor_unfold)

lemma errorCodeBits_Tick_thermistor:
  "errorCodeBits (Tick_thermistor c adc s) = errorCodeBits s
   \<or> errorCodeBits (Tick_thermistor c adc s) = errorCodeBits s OR ErrorBadTemp c"
  by (simp add: Tick_thermistor_unfold)

lemma tickState_Tick_probeOn: "tickState (Tick_probeOn c adc s) = tickState s + 1"
  by (simp add: Tick_probe_unfold)

lemma tickState_Tick_default: "tickState (Tick_default c s) = 1"
  by (simp add: Tick_probe_unfold)

lemma fields_Tick_probeOn:
  "zProbeOnFilter (Tick_probeOn c adc s) =
     ProcessReading (numZProbeReadingsAveraged c) (zProbeOnFilter s) (adc (zProbeAdcChannel s))"
  "zProbeOffFilter (Tick_probeOn c adc s) = zProbeOffFilter s"
  "nvData (Tick_probeOn c adc s) = nvData s"
  "zProbeAdcChannel (Tick_probeOn c adc s) = zProbeAdcChannel s"
  "errorCodeBits (Tick_probeOn c adc s) = errorCodeBits s"
  "currentHeater (Tick_probeOn c adc s) = currentHeater s"
  "thermistorFilters (Tick_probeOn c adc s) = thermistorFilters s"
  by (simp_all add: Tick_probe_unfold)

lemma fields_Tick_probeOff:
  "zProbeOffFilter (Tick_probeOff c adc s) =
     ProcessReading (numZProbeReadingsAveraged c) (zProbeOffFilter s) (adc (zProbeAdcChannel s))"
  "zProbeOnFilter (Tick_probeOff c adc s) = zProbeOnFilter s"
  "nvData (Tick_probeOff c adc s) = nvData s"
  "zProbeAdcChannel (Tick_probeOff c adc s) = zProbeAdcChannel s"
  "errorCodeBits (Tick_probeOff c adc s) = errorCodeBits s"
  "currentHeater (Tick_probeOff c adc s) = currentHeater s"
  "thermistorFilters (Tick_probeOff c adc s) = thermistorFilters s"
  "tickState (Tick_probeOff c adc s) = tickState s"
  by (simp_all add: Tick_probe_unfold)

lemma fields_Tick_default:
  "zProbeOnFilter (Tick_default c s) = zProbeOnFilter s"
  "zProbeOffFilter (Tick_default c s) = zProbeOffFilter s"
  "nvData (Tick_default c s) = nvData s"
  "zProbeAdcChannel (Tick_default c s) = zProbeAdcChannel s"
  "errorCodeBits (Tick_default c s) = errorCodeBits s"
  "currentHeater (Tick_default c s) = currentHeater s"
  "thermistorFilters (Tick_default c s) = thermistorFilters s"
  by (simp_all add: Tick_probe_unfold)

lemma tickState_Tick:
  "tickState (Tick c adc s) =
     (if tickState s = 1 \<or> tickState s = 2 \<or> tickState s = 3 then tickState s + 1 else 1)"
  by (simp add: Tick_def tickState_Tick_thermistor tickState_Tick_probeOn tickState_Tick_default)

lemma and_mask_or:
  fixes x e b :: "'a::len word"
  assumes "x AND b = b"
  shows "(x OR e) AND b = b"
proof -
  have "(x OR e) AND b = (x AND b) OR (e AND b)"
    by (simp add: bit.conj_disj_distrib2)
  also have "\<dots> = b OR (e AND b)"
    by (simp only: assms)
  also have "\<dots> = b"
    by (simp add: bit_eq_iff bit_or_iff bit_and_iff)
  finally show ?thesis .
qed

lemma errorCodeBits_Tick:
  assumes "errorCodeBits s AND b = b"
  shows "errorCodeBits (Tick c adc s) AND b = b"
proof -
  have "errorCodeBits (Tick c adc s) = errorCodeBits s
        \<or> errorCodeBits (Tick c adc s) = errorCodeBits s OR ErrorBadTemp c"
    using errorCodeBits_Tick_thermistor[of c adc s]
    by (simp add: Tick_def fields_Tick_probeOn fields_Tick_probeOff fields_Tick_default)
  then show ?thesis
    using assms and_mask_or[OF assms, of "ErrorBadTemp c"] by auto
qed

lemma errorCodeBits_Ticks:
  "errorCodeBits s AND b = b \<Longrightarrow> errorCodeBits (Ticks c s adcs) AND b = b"
  by (induction adcs arbitrary: s) (simp_all add: errorCodeBits_Tick)

lemma analogOut_SetHeater_0:
  "analogOut (SetHeater c h 0 s) =
     (if heatOnPins s ! h < 0 then analogOut s
      else (analogOut s)(heatOnPins s ! h \<mapsto> (if HEAT_ON c = 0 then 255 else 0)))"
  by (simp add: SetHeater_def analogWriteNonDue_def int_of_float_def)

lemma Tick_thermistor_fault:
  assumes "IsValid (numThermistorReadingsAveraged c)
             (ProcessReading (numThermistorReadingsAveraged c)
                (thermistorFilters s ! currentHeater s)
                (adc (heaterAdcChannels s ! currentHeater s)))"
    and "GetSum (ProcessReading (numThermistorReadingsAveraged c)
                (thermistorFilters s ! currentHeater s)
                (adc (heaterAdcChannels s ! currentHeater s)))
           < thermistorOverheatSums s ! currentHeater s
         \<or> GetSum (ProcessReading (numThermistorReadingsAveraged c)
                (thermistorFilters s ! currentHeater s)
                (adc (heaterAdcChannels s ! currentHeater s)))
           \<ge> of_nat (adDisconnectedReal c * numThermistorReadingsAveraged c)"
  shows "errorCodeBits (Tick_thermistor c adc s) = errorCodeBits s OR ErrorBadTemp c"
    and "analogOut (Tick_thermistor c adc s) = analogOut (SetHeater c (currentHeater s) 0 s)"
  using assms by (simp_all add: Tick_thermistor_unfold)

lemma Tick_thermistor_no_fault:
  assumes "\<not> (IsValid (numThermistorReadingsAveraged c)
             (ProcessReading (numThermistorReadingsAveraged c)
                (thermistorFilters s ! currentHeater s)
                (adc (heaterAdcChannels s ! currentHeater s)))
    \<and> (GetSum (ProcessReading (numThermistorReadingsAveraged c)
                (thermistorFilters s ! currentHeater s)
                (adc (heaterAdcChannels s ! currentHeater s)))
           < thermistorOverheatSums s ! currentHeater s
         \<or> GetSum (ProcessReading (numThermistorReadingsAveraged c)
                (thermistorFilters s ! currentHeater s)
                (adc (heaterAdcChannels s ! currentHeater s)))
           \<ge> of_nat (adDisconnectedReal c * numThermistorReadingsAveraged c)))"
  shows "errorCodeBits (Tick_thermistor c adc s) = errorCodeBits s"
    and "analogOut (Tick_thermistor c adc s) = analogOut s"
  using assms by (auto simp add: Tick_thermistor_unfold)

section \<open>The invariant of the averaging filter\<close>

text \<open>
  A filter built by \<^verbatim>\<open>Init\<close> and fed by \<^verbatim>\<open>ProcessReading\<close> keeps its invariant, and the sum
  of at most 32768 samples of 16 bits is representable as \<^verbatim>\<open>int32_t\<close>.
\<close>

lemma sum_list_map_update:
  fixes g :: "'a \<Rightarrow> int"
  assumes "i < length xs"
  shows "sum_list (map g (xs[i := x])) = sum_list (map g xs) - g (xs ! i) + g x"
  using assms
proof (induction xs arbitrary: i)
  case Nil
  then show ?case by simp
next
  case (Cons y ys)
  then show ?case by (cases i) simp_all
qed

lemma sum_list_uint16_bound:
  fixes xs :: "uint16_t list"
  shows "0 \<le> sum_list (map uint xs) \<and> sum_list (map uint xs) \<le> 65535 * int (length xs)"
proof (induction xs)
  case Nil
  then show ?case by simp
next
  case (Cons x xs)
  have "uint x < 2 ^ LENGTH(16)" by (rule uint_lt2p)
  then have "uint x \<le> 65535" by simp
  moreover have "0 \<le> uint x" by simp
  ultimately show ?case using Cons by (simp add: algebra_simps)
qed

lemma AveragingFilter_inv_Init:
  "0 < N \<Longrightarrow> AveragingFilter_inv N (Init N v)"
  by (simp add: AveragingFilter_inv_def Init_def sum_list_replicate)

lemma AveragingFilter_inv_ProcessReading:
  assumes "AveragingFilter_inv N f"
  shows "AveragingFilter_inv N (ProcessReading N f x)"
proof -
  from assms have len: "length (readings f) = N" and cur: "cursor f < N"
    and s: "runningSum f = word_of_int (sum_list (map uint (readings f)))"
    by (simp_all add: AveragingFilter_inv_def)
  have "sum_list (map uint ((readings f)[cursor f := x]))
          = sum_list (map uint (readings f)) - uint (readings f ! cursor f) + uint x"
    using cur len by (intro sum_list_map_update) simp
  then have "word_of_int (sum_list (map uint ((readings f)[cursor f := x])))
          = runningSum f - ucast (readings f ! cursor f) + (ucast x :: uint32_t)"
    by (simp add: s)
  then show ?thesis
    using len cur by (simp add: AveragingFilter_inv_def ProcessReading_def)
qed

lemma AveragingFilter_inv_GetSum:
  assumes "AveragingFilter_inv N f" and "N \<le> 32768"
  shows "uint (GetSum f) = sum_list (map uint (readings f))"
    and "uint (GetSum f) < 2 ^ 31"
proof -
  from assms have len: "length (readings f) = N"
    and s: "runningSum f = word_of_int (sum_list (map uint (readings f)))"
    by (simp_all add: AveragingFilter_inv_def)
  let ?S = "sum_list (map uint (readings f))"
  have b: "0 \<le> ?S" "?S \<le> 65535 * int N"
    using sum_list_uint16_bound[of "readings f"] len by simp_all
  have "65535 * int N \<le> 65535 * 32768"
    using assms(2) by simp
  with b have lt: "?S < 2 ^ 31" by simp
  then have "?S < 2 ^ LENGTH(32)" by simp
  with b(1) have "uint (word_of_int ?S :: uint32_t) = ?S"
    by (simp add: uint_word_of_int take_bit_int_eq_self)
  then show "uint (GetSum f) = ?S" by (simp add: GetSum_def s)
  with lt show "uint (GetSum f) < 2 ^ 31" by simp
qed

lemma AveragingFilter_inv_foldl:
  "AveragingFilter_inv N f \<Longrightarrow> AveragingFilter_inv N (foldl (ProcessReading N) f xs)"
  by (induction xs arbitrary: f) (simp_all add: AveragingFilter_inv_ProcessReading)

section \<open>Filters along a run of ticks\<close>

lemma fillCount_ProcessReading:
  "fillCount (ProcessReading N f x) = min N (fillCount f + 1)"
  by (simp add: ProcessReading_def)

lemma fillCount_foldl_ProcessReading:
  "fillCount f \<le> N \<Longrightarrow>
   fillCount (foldl (ProcessReading N) f xs) = min N (fillCount f + length xs)"
proof (induction xs arbitrary: f)
  case Nil
  then show ?case by simp
next
  case (Cons x xs)
  have "fillCount (ProcessReading N f x) \<le> N"
    by (simp add: fillCount_ProcessReading)
  from Cons.IH[OF this] show ?case
    by (simp add: fillCount_ProcessReading min_def)
qed

lemma IsValid_foldl_Init:
  "IsValid N (foldl (ProcessReading N) (Init N v) xs) \<longleftrightarrow> N \<le> length xs"
  using fillCount_foldl_ProcessReading[of "Init N v" N xs]
  by (simp add: IsValid_def Init_def)

lemma zProbeOnFilter_Tick:
  "zProbeOnFilter (Tick c adc s) =
     (if tickState s = 2
      then ProcessReading (numZProbeReadingsAveraged c) (zProbeOnFilter s) (adc (zProbeAdcChannel s))
      else zProbeOnFilter s)"
  by (simp add: Tick_def probe_Tick_thermistor fields_Tick_probeOn fields_Tick_probeOff fields_Tick_default)

lemma zProbeOffFilter_Tick:
  "zProbeOffFilter (Tick c adc s) =
     (if tickState s = 4
      then ProcessReading (numZProbeReadingsAveraged c) (zProbeOffFilter s) (adc (zProbeAdcChannel s))
      else zProbeOffFilter s)"
  by (simp add: Tick_def probe_Tick_thermistor fields_Tick_probeOn fields_Tick_probeOff fields_Tick_default)

lemma nvData_Tick: "nvData (Tick c adc s) = nvData s"
  by (simp add: Tick_def probe_Tick_thermistor fields_Tick_probeOn fields_Tick_probeOff fields_Tick_default)

lemma zProbeOnFilter_Ticks:
  "zProbeOnFilter (Ticks c s adcs) =
     foldl (ProcessReading (numZProbeReadingsAveraged c)) (zProbeOnFilter s) (probeOnReadings c s adcs)"
  by (induction adcs arbitrary: s) (simp_all add: zProbeOnFilter_Tick)

lemma zProbeOffFilter_Ticks:
  "zProbeOffFilter (Ticks c s adcs) =
     foldl (ProcessReading (numZProbeReadingsAveraged c)) (zProbeOffFilter s) (probeOffReadings c s adcs)"
  by (induction adcs arbitrary: s) (simp_all add: zProbeOffFilter_Tick)

lemma probe_filters_inv_Ticks:
  "AveragingFilter_inv (numZProbeReadingsAveraged c) (zProbeOnFilter s) \<Longrightarrow>
   AveragingFilter_inv (numZProbeReadingsAveraged c) (zProbeOnFilter (Ticks c s adcs))"
  "AveragingFilter_inv (numZProbeReadingsAveraged c) (zProbeOffFilter s) \<Longrightarrow>
   AveragingFilter_inv (numZProbeReadingsAveraged c) (zProbeOffFilter (Ticks c s adcs))"
  by (simp_all only: zProbeOnFilter_Ticks zProbeOffFilter_Ticks AveragingFilter_inv_foldl)

lemma length_probeOnReadings: "length (probeOnReadings c s adcs) \<le> length adcs"
  by (induction adcs arbitrary: s) (simp_all add: le_SucI)

lemma length_probeOffReadings: "length (probeOffReadings c s adcs) \<le> length adcs"
  by (induction adcs arbitrary: s) (simp_all add: le_SucI)

lemma ZProbe_invalid:
  "\<not> IsValid (numZProbeReadingsAveraged c) (zProbeOnFilter s)
     \<or> \<not> IsValid (numZProbeReadingsAveraged c) (zProbeOffFilter s)
   \<Longrightarrow> ZProbe c s = 0"
  by (auto simp: ZProbe_def)

lemma filters_InitZProbe:
  "zProbeOnFilter (InitZProbe c s) = Init (numZProbeReadingsAveraged c) 0"
  "zProbeOffFilter (InitZProbe c s) = Init (numZProbeReadingsAveraged c) 0"
  by (simp_all add: InitZProbe_def Let_def SetZProbing_def digitalWriteNonDue_def pinModeNonDue_def)

lemma pin_InitZProbe:
  "zProbeType (nvData s) = 1 \<or> zProbeType (nvData s) = 2 \<Longrightarrow>
     digitalOut (InitZProbe c s) (zProbeModulationPin s) = Some HIGH
     \<and> pinModes (InitZProbe c s) (zProbeModulationPin s) = Some OUTPUT"
  "zProbeType (nvData s) = 3 \<Longrightarrow>
     digitalOut (InitZProbe c s) (zProbeModulationPin s) = Some LOW
     \<and> pinModes (InitZProbe c s) (zProbeModulationPin s) = Some OUTPUT"
  by (auto simp add: InitZProbe_def Let_def SetZProbing_def digitalWriteNonDue_def pinModeNonDue_def)

lemma SetZProbeType_eq:
  "SetZProbeType c pt s =
     InitZProbe c
       (if (if 0 \<le> pt \<and> pt \<le> 3 then pt else 0) \<noteq> zProbeType (nvData s)
        then WriteNvData (s\<lparr>nvData := (nvData s)\<lparr>zProbeType := (if 0 \<le> pt \<and> pt \<le> 3 then pt else 0)\<rparr>\<rparr>)
        else s)"
  by (simp add: SetZProbeType_def Let_def)

lemma zProbeModulationPin_SetZProbeType_arg:
  "zProbeModulationPin
       (if (if 0 \<le> pt \<and> pt \<le> 3 then pt else 0) \<noteq> zProbeType (nvData s)
        then WriteNvData (s\<lparr>nvData := (nvData s)\<lparr>zProbeType := (if 0 \<le> pt \<and> pt \<le> 3 then pt else 0)\<rparr>\<rparr>)
        else s) = zProbeModulationPin s"
  "zProbeType (nvData
       (if (if 0 \<le> pt \<and> pt \<le> 3 then pt else 0) \<noteq> zProbeType (nvData s)
        then WriteNvData (s\<lparr>nvData := (nvData s)\<lparr>zProbeType := (if 0 \<le> pt \<and> pt \<le> 3 then pt else 0)\<rparr>\<rparr>)
        else s)) = (if 0 \<le> pt \<and> pt \<le> 3 then pt else 0)"
  by (simp_all add: WriteNvData_def)

section \<open>The loop over the heaters in Platform::Init\<close>

lemma Init_pidParams_eq:
  "Init_pidParams d i pp =
     \<lparr>kI = defaultPidKis d i, kD = defaultPidKds d i, kP = defaultPidKps d i,
      kT = defaultPidKts d i, kS = defaultPidKss d i, fullBand = defaultFullBand d i,
      pidMin = defaultPidMin d i, pidMax = defaultPidMax d i,
      thermistorBeta = defaultThermistorBetas d i,
      thermistorInfR = defaultThermistor25RS d i * exp (- defaultThermistorBetas d i / (25 - ABS_ZERO)),
      thermistorSeriesR = defaultThermistorSeriesRs d i,
      adcLowOffset = 0, adcHighOffset = 0\<rparr>"
  by (cases pp) (simp add: Init_pidParams_def SetThermistorR25AndBeta_def Let_def)

lemma fold_update_upt:
  "k \<le> length ps \<Longrightarrow>
   fold (\<lambda>i ps. ps[i := g i (ps ! i)]) [0..<k] ps = map (\<lambda>i. g i (ps ! i)) [0..<k] @ drop k ps"
proof (induction k)
  case 0
  then show ?case by simp
next
  case (Suc k)
  then have k: "k < length ps" by simp
  let ?xs = "map (\<lambda>i. g i (ps ! i)) [0..<k]"
  have len: "length ?xs = k" by simp
  have dr: "drop k ps = ps ! k # drop (Suc k) ps"
    using k by (simp add: Cons_nth_drop_Suc)
  have "fold (\<lambda>i ps. ps[i := g i (ps ! i)]) [0..<Suc k] ps
          = (?xs @ drop k ps)[k := g k ((?xs @ drop k ps) ! k)]"
    using Suc.IH k by simp
  also have "(?xs @ drop k ps) ! k = ps ! k"
    using len dr by (simp add: nth_append)
  also have "(?xs @ drop k ps)[k := g k (ps ! k)] = ?xs @ (drop k ps)[0 := g k (ps ! k)]"
    using len by (simp add: list_update_append)
  also have "\<dots> = ?xs @ g k (ps ! k) # drop (Suc k) ps"
    by (simp add: dr)
  finally show ?case by simp
qed

lemma Init_pidParams_loop:
  assumes "length ps = n"
  shows "fold (\<lambda>i ps. ps[i := Init_pidParams d i (ps ! i)]) [0..<n] ps
         = map (\<lambda>i. Init_pidParams d i undefined) [0..<n]"
proof -
  have "fold (\<lambda>i ps. ps[i := Init_pidParams d i (ps ! i)]) [0..<n] ps
          = map (\<lambda>i. Init_pidParams d i (ps ! i)) [0..<n] @ drop n ps"
    using assms by (intro fold_update_upt) simp
  also have "\<dots> = map (\<lambda>i. Init_pidParams d i (ps ! i)) [0..<n]"
    using assms by simp
  also have "\<dots> = map (\<lambda>i. Init_pidParams d i undefined) [0..<n]"
    by (simp only: Init_pidParams_eq)
  finally show ?thesis .
qed

section \<open>The scaled probe reading\<close>



text \<open>
  What the type of the constant decides: the unsigned 32-bit division, which C++ would
  perform on the same operands if \<^verbatim>\<open>numZProbeReadingsAveraged\<close> had an unsigned type, gives
  134217726 for an on-sum of 0 and an off-sum of 40, where the signed division gives -1.
\<close>

lemma unsigned_division_example:
  "sint (((0 :: uint32_t) - 40) div of_nat (4 * 8)) = 134217726
   \<and> sint (sdiv32 ((0 :: uint32_t) - 40) (of_nat (4 * 8))) = - 1"
  by (simp add: sdiv32_def signed_divide_int_def)

text \<open>
  Claim C3. Whenever at least one of the two probe filters is not valid, \<^verbatim>\<open>ZProbe()\<close>
  returns 0, whatever the probe type.
\<close>

theorem ZProbe_not_valid:
  "\<not> IsValid (numZProbeReadingsAveraged c) (zProbeOnFilter s)
     \<or> \<not> IsValid (numZProbeReadingsAveraged c) (zProbeOffFilter s)
   \<Longrightarrow> ZProbe c s = 0"
  by (auto simp: ZProbe_def)

theorem ZProbe_not_valid_witness:
  "ZProbe example_constants
     (example_Platform\<lparr>nvData := example_nvData\<lparr>zProbeType := 2\<rparr>,
                        zProbeOnFilter := example_probe_filter 8 100,
                        zProbeOffFilter := example_probe_filter 7 5\<rparr>) = 0"
  by (rule ZProbe_not_valid)
     (simp add: example_constants_def example_probe_filter_def IsValid_def)

section \<open>Setting the probe type\<close>

text \<open>
  Claim C10. For every integer \<open>pt\<close> outside the range 0..3, \<^verbatim>\<open>SetZProbeType(pt)\<close> behaves as
  \<^verbatim>\<open>SetZProbeType(0)\<close>, and the probe type stored afterwards is 0.
\<close>

theorem SetZProbeType_out_of_range:
  assumes "pt < 0 \<or> 3 < pt"
  shows "SetZProbeType c pt s = SetZProbeType c 0 s
         \<and> GetZProbeType (SetZProbeType c pt s) = 0"
proof
  show "SetZProbeType c pt s = SetZProbeType c 0 s"
    using assms by (auto simp add: SetZProbeType_def)
  show "GetZProbeType (SetZProbeType c pt s) = 0"
    using assms
    by (auto simp add: SetZProbeType_def Let_def GetZProbeType_def nvData_InitZProbe nvData_WriteNvData)
qed

theorem SetZProbeType_out_of_range_witness:
  "GetZProbeType
     (SetZProbeType example_constants 7
        (example_Platform\<lparr>nvData := example_nvData\<lparr>zProbeType := 2\<rparr>\<rparr>)) = 0
   \<and> GetZProbeType
     (SetZProbeType example_constants (- 1)
        (example_Platform\<lparr>nvData := example_nvData\<lparr>zProbeType := 2\<rparr>\<rparr>)) = 0"
  using SetZProbeType_out_of_range [of 7 example_constants
          "example_Platform\<lparr>nvData := example_nvData\<lparr>zProbeType := 2\<rparr>\<rparr>", THEN conjunct2]
        SetZProbeType_out_of_range [of "- 1" example_constants
          "example_Platform\<lparr>nvData := example_nvData\<lparr>zProbeType := 2\<rparr>\<rparr>", THEN conjunct2]
  by simp

section \<open>Thermistor parameters and temperature\<close>

text \<open>
  Claim C7. After \<^verbatim>\<open>SetThermistorR25AndBeta(r25, beta)\<close> the stored reference resistance is
  \<open>r25 * exp (- beta / (25 - ABS_ZERO))\<close>, that is \<open>r25 * exp (- beta / 298.15)\<close>, the stored
  Beta is \<open>beta\<close>, and \<^verbatim>\<open>GetThermistorR25()\<close> returns \<open>r25\<close> again. With \<^verbatim>\<open>float\<close> idealised
  as the reals the round trip is exact.
\<close>

theorem SetThermistorR25AndBeta_round_trip:
  "thermistorInfR (SetThermistorR25AndBeta r25 beta p) = r25 * exp (- beta / (25 - ABS_ZERO))
   \<and> thermistorInfR (SetThermistorR25AndBeta r25 beta p) = r25 * exp (- beta / 298.15)
   \<and> thermistorBeta (SetThermistorR25AndBeta r25 beta p) = beta
   \<and> GetThermistorR25 (SetThermistorR25AndBeta r25 beta p) = r25"
proof -
  let ?p = "SetThermistorR25AndBeta r25 beta p"
  have inf: "thermistorInfR ?p = r25 * exp (- beta / (25 - ABS_ZERO))"
    by (simp add: SetThermistorR25AndBeta_def Let_def)
  have kelvin: "25 - ABS_ZERO = 298.15"
    by (simp add: ABS_ZERO_def)
  have inf': "thermistorInfR ?p = r25 * exp (- beta / 298.15)"
    by (simp only: inf kelvin)
  have beta: "thermistorBeta ?p = beta"
    by (simp add: SetThermistorR25AndBeta_def Let_def)
  have "exp (- beta / (25 - ABS_ZERO)) * exp (beta / (25 - ABS_ZERO)) = 1"
    by (simp flip: exp_add)
  then have "r25 * exp (- beta / (25 - ABS_ZERO)) * exp (beta / (25 - ABS_ZERO)) = r25"
    by (simp only: mult.assoc mult_1_right)
  then have r25: "GetThermistorR25 ?p = r25"
    by (simp only: GetThermistorR25_def inf beta)
  from inf inf' beta r25 show ?thesis
    by (intro conjI)
qed




section \<open>The tick interrupt as a state machine\<close>

text \<open>
  Claim C8. Each call of \<^verbatim>\<open>Tick()\<close> advances the cycle by one step: from state 0 or 4 to
  state 1, from 1 to 2, from 2 to 3 and from 3 to 4. In states 1 and 3 the filter of the
  current heater is fed with the result of that heater's channel and the heater index
  advances by one, wrapping to zero at \<^verbatim>\<open>HEATERS\<close>; in state 2 the probe's on-filter is fed and
  in state 4 its off-filter.
\<close>

theorem Tick_cycle:
  "(tickState s = 0 \<or> tickState s = 4 \<longrightarrow> tickState (Tick c adc s) = 1)
   \<and> (tickState s = 1 \<longrightarrow> tickState (Tick c adc s) = 2)
   \<and> (tickState s = 2 \<longrightarrow> tickState (Tick c adc s) = 3)
   \<and> (tickState s = 3 \<longrightarrow> tickState (Tick c adc s) = 4)
   \<and> (tickState s = 1 \<or> tickState s = 3 \<longrightarrow>
        thermistorFilters (Tick c adc s) =
          (thermistorFilters s)[currentHeater s :=
             ProcessReading (numThermistorReadingsAveraged c)
               (thermistorFilters s ! currentHeater s)
               (adc (heaterAdcChannels s ! currentHeater s))]
        \<and> currentHeater (Tick c adc s) =
            (if currentHeater s + 1 = HEATERS c then 0 else currentHeater s + 1)
        \<and> (currentHeater s < HEATERS c \<longrightarrow>
             currentHeater (Tick c adc s) = (currentHeater s + 1) mod HEATERS c))
   \<and> (tickState s = 2 \<longrightarrow>
        zProbeOnFilter (Tick c adc s) =
          ProcessReading (numZProbeReadingsAveraged c) (zProbeOnFilter s) (adc (zProbeAdcChannel s)))
   \<and> (tickState s = 4 \<longrightarrow>
        zProbeOffFilter (Tick c adc s) =
          ProcessReading (numZProbeReadingsAveraged c) (zProbeOffFilter s) (adc (zProbeAdcChannel s)))"
proof -
  let ?s' = "Tick c adc s"
  have st: "tickState ?s' =
     (if tickState s = 1 \<or> tickState s = 2 \<or> tickState s = 3 then tickState s + 1 else 1)"
    by (rule tickState_Tick)
  have s04: "tickState s = 0 \<or> tickState s = 4 \<longrightarrow> tickState ?s' = 1"
    and s1: "tickState s = 1 \<longrightarrow> tickState ?s' = 2"
    and s2: "tickState s = 2 \<longrightarrow> tickState ?s' = 3"
    and s3: "tickState s = 3 \<longrightarrow> tickState ?s' = 4"
    by (auto simp add: st)
  have th: "tickState s = 1 \<or> tickState s = 3 \<longrightarrow>
        thermistorFilters ?s' =
          (thermistorFilters s)[currentHeater s :=
             ProcessReading (numThermistorReadingsAveraged c)
               (thermistorFilters s ! currentHeater s)
               (adc (heaterAdcChannels s ! currentHeater s))]
        \<and> currentHeater ?s' =
            (if currentHeater s + 1 = HEATERS c then 0 else currentHeater s + 1)
        \<and> (currentHeater s < HEATERS c \<longrightarrow>
             currentHeater ?s' = (currentHeater s + 1) mod HEATERS c)"
  proof
    assume "tickState s = 1 \<or> tickState s = 3"
    then have eq: "?s' = Tick_thermistor c adc s"
      by (simp add: Tick_def)
    have "currentHeater s < HEATERS c \<Longrightarrow>
        (if currentHeater s + 1 = HEATERS c then 0 else currentHeater s + 1)
          = (currentHeater s + 1) mod HEATERS c"
      by (auto simp: mod_Suc)
    then show "thermistorFilters ?s' =
          (thermistorFilters s)[currentHeater s :=
             ProcessReading (numThermistorReadingsAveraged c)
               (thermistorFilters s ! currentHeater s)
               (adc (heaterAdcChannels s ! currentHeater s))]
        \<and> currentHeater ?s' =
            (if currentHeater s + 1 = HEATERS c then 0 else currentHeater s + 1)
        \<and> (currentHeater s < HEATERS c \<longrightarrow>
             currentHeater ?s' = (currentHeater s + 1) mod HEATERS c)"
      unfolding eq
      by (simp only: thermistorFilters_Tick_thermistor currentHeater_Tick_thermistor) simp
  qed
  have on: "tickState s = 2 \<longrightarrow>
        zProbeOnFilter ?s' =
          ProcessReading (numZProbeReadingsAveraged c) (zProbeOnFilter s) (adc (zProbeAdcChannel s))"
    by (simp add: Tick_def fields_Tick_probeOn)
  have off: "tickState s = 4 \<longrightarrow>
        zProbeOffFilter ?s' =
          ProcessReading (numZProbeReadingsAveraged c) (zProbeOffFilter s) (adc (zProbeAdcChannel s))"
    by (simp add: Tick_def fields_Tick_probeOff fields_Tick_default)
  from s04 s1 s2 s3 th on off show ?thesis
    by (intro conjI)
qed

theorem Tick_cycle_witness:
  "tickState (Tick example_constants (\<lambda>chan. 100) (example_Platform\<lparr>tickState := 0\<rparr>)) = 1
   \<and> tickState (Tick example_constants (\<lambda>chan. 100) (example_Platform\<lparr>tickState := 1\<rparr>)) = 2
   \<and> tickState (Tick example_constants (\<lambda>chan. 100) (example_Platform\<lparr>tickState := 2\<rparr>)) = 3
   \<and> tickState (Tick example_constants (\<lambda>chan. 100) (example_Platform\<lparr>tickState := 3\<rparr>)) = 4
   \<and> tickState (Tick example_constants (\<lambda>chan. 100) (example_Platform\<lparr>tickState := 4\<rparr>)) = 1
   \<and> currentHeater (Tick example_constants (\<lambda>chan. 100)
         (example_Platform\<lparr>tickState := 1, currentHeater := 0\<rparr>)) = 1
   \<and> currentHeater (Tick example_constants (\<lambda>chan. 100)
         (example_Platform\<lparr>tickState := 3, currentHeater := 1\<rparr>)) = 0
   \<and> zProbeOnFilter (Tick example_constants (\<lambda>chan. 100) (example_Platform\<lparr>tickState := 2\<rparr>))
       = ProcessReading 8 (Init 8 0) 100
   \<and> zProbeOffFilter (Tick example_constants (\<lambda>chan. 100) (example_Platform\<lparr>tickState := 4\<rparr>))
       = ProcessReading 8 (Init 8 0) 100"
  using Tick_cycle [of "example_Platform\<lparr>tickState := 0\<rparr>" example_constants "\<lambda>chan. 100"]
    Tick_cycle [of "example_Platform\<lparr>tickState := 1\<rparr>" example_constants "\<lambda>chan. 100"]
    Tick_cycle [of "example_Platform\<lparr>tickState := 2\<rparr>" example_constants "\<lambda>chan. 100"]
    Tick_cycle [of "example_Platform\<lparr>tickState := 3\<rparr>" example_constants "\<lambda>chan. 100"]
    Tick_cycle [of "example_Platform\<lparr>tickState := 4\<rparr>" example_constants "\<lambda>chan. 100"]
    Tick_cycle [of "example_Platform\<lparr>tickState := 1, currentHeater := 0\<rparr>" example_constants "\<lambda>chan. 100"]
    Tick_cycle [of "example_Platform\<lparr>tickState := 3, currentHeater := 1\<rparr>" example_constants "\<lambda>chan. 100"]
  by (simp add: example_constants_def example_Platform_def)

text \<open>
  Claim C1. In a call of \<^verbatim>\<open>Tick()\<close> in state 1 or 3, let the filter of the current heater,
  once fed with this tick's sample, be valid with a sum below the heater's overheat sum or
  at or above \<open>adDisconnectedReal * numThermistorReadingsAveraged\<close>. Then this same call
  applies \<^verbatim>\<open>SetHeater(currentHeater, 0.0)\<close>, which writes the off level to the heater's
  pin (a heater without a pin has no output), and sets the bit \<^verbatim>\<open>ErrorBadTemp\<close> in
  \<^verbatim>\<open>errorCodeBits\<close>; no later run of ticks clears that bit, nor any other bit that is set.
\<close>

theorem Tick_bad_temperature:
  assumes "tickState s = 1 \<or> tickState s = 3"
    and "IsValid (numThermistorReadingsAveraged c)
             (ProcessReading (numThermistorReadingsAveraged c)
                (thermistorFilters s ! currentHeater s)
                (adc (heaterAdcChannels s ! currentHeater s)))"
    and "GetSum (ProcessReading (numThermistorReadingsAveraged c)
                (thermistorFilters s ! currentHeater s)
                (adc (heaterAdcChannels s ! currentHeater s)))
           < thermistorOverheatSums s ! currentHeater s
         \<or> GetSum (ProcessReading (numThermistorReadingsAveraged c)
                (thermistorFilters s ! currentHeater s)
                (adc (heaterAdcChannels s ! currentHeater s)))
           \<ge> of_nat (adDisconnectedReal c * numThermistorReadingsAveraged c)"
  shows "analogOut (Tick c adc s) = analogOut (SetHeater c (currentHeater s) 0 s)
    \<and> (0 \<le> heatOnPins s ! currentHeater s \<longrightarrow>
          analogOut (Tick c adc s) (heatOnPins s ! currentHeater s)
            = Some (if HEAT_ON c = 0 then 255 else 0))
    \<and> errorCodeBits (Tick c adc s) = errorCodeBits s OR ErrorBadTemp c
    \<and> errorCodeBits (Tick c adc s) AND ErrorBadTemp c = ErrorBadTemp c
    \<and> (\<forall>adcs.
          errorCodeBits (Ticks c (Tick c adc s) adcs) AND ErrorBadTemp c = ErrorBadTemp c
          \<and> errorCodeBits (Ticks c (Tick c adc s) adcs) AND errorCodeBits (Tick c adc s)
              = errorCodeBits (Tick c adc s))"
proof -
  have eq: "Tick c adc s = Tick_thermistor c adc s"
    using assms(1) by (simp add: Tick_def)
  have out: "analogOut (Tick c adc s) = analogOut (SetHeater c (currentHeater s) 0 s)"
    unfolding eq by (rule Tick_thermistor_fault(2)[where c=c and s=s and adc=adc, OF assms(2,3)])
  have pin: "0 \<le> heatOnPins s ! currentHeater s \<longrightarrow>
          analogOut (Tick c adc s) (heatOnPins s ! currentHeater s)
            = Some (if HEAT_ON c = 0 then 255 else 0)"
    unfolding out analogOut_SetHeater_0 by simp
  have err: "errorCodeBits (Tick c adc s) = errorCodeBits s OR ErrorBadTemp c"
    unfolding eq by (rule Tick_thermistor_fault(1)[where c=c and s=s and adc=adc, OF assms(2,3)])
  have bit: "errorCodeBits (Tick c adc s) AND ErrorBadTemp c = ErrorBadTemp c"
    unfolding err by (simp add: bit_eq_iff bit_or_iff bit_and_iff)
  have sticky: "\<forall>adcs.
          errorCodeBits (Ticks c (Tick c adc s) adcs) AND ErrorBadTemp c = ErrorBadTemp c
          \<and> errorCodeBits (Ticks c (Tick c adc s) adcs) AND errorCodeBits (Tick c adc s)
              = errorCodeBits (Tick c adc s)"
  proof (intro allI conjI)
    fix adcs
    show "errorCodeBits (Ticks c (Tick c adc s) adcs) AND ErrorBadTemp c = ErrorBadTemp c"
      using bit by (rule errorCodeBits_Ticks)
    show "errorCodeBits (Ticks c (Tick c adc s) adcs) AND errorCodeBits (Tick c adc s)
              = errorCodeBits (Tick c adc s)"
      by (rule errorCodeBits_Ticks) simp
  qed
  from out pin err bit sticky show ?thesis
    by (intro conjI)
qed

theorem Tick_bad_temperature_witness:
  "analogOut (Tick example_constants (\<lambda>chan. 10)
      (example_Platform\<lparr>tickState := 1,
         thermistorFilters := [example_thermistor_filter 4 0, example_thermistor_filter 4 0]\<rparr>)) 6 = Some 255
   \<and> errorCodeBits (Tick example_constants (\<lambda>chan. 10)
      (example_Platform\<lparr>tickState := 1,
         thermistorFilters := [example_thermistor_filter 4 0, example_thermistor_filter 4 0]\<rparr>)) = 1
   \<and> errorCodeBits (Ticks example_constants (Tick example_constants (\<lambda>chan. 10)
      (example_Platform\<lparr>tickState := 1,
         thermistorFilters := [example_thermistor_filter 4 0, example_thermistor_filter 4 0]\<rparr>))
        [\<lambda>chan. 2000, \<lambda>chan. 2000, \<lambda>chan. 2000]) AND 1 = 1
   \<and> errorCodeBits (Tick example_constants (\<lambda>chan. 4095)
      (example_Platform\<lparr>tickState := 3,
         thermistorFilters := [example_thermistor_filter 4 4095, example_thermistor_filter 4 4095]\<rparr>)) = 1"
  using Tick_bad_temperature [of
      "example_Platform\<lparr>tickState := 1,
         thermistorFilters := [example_thermistor_filter 4 0, example_thermistor_filter 4 0]\<rparr>"
      example_constants "\<lambda>chan. 10"]
    Tick_bad_temperature [of
      "example_Platform\<lparr>tickState := 1,
         thermistorFilters := [example_thermistor_filter 4 0, example_thermistor_filter 4 0]\<rparr>"
      example_constants "\<lambda>chan. 10",
      THEN conjunct2, THEN conjunct2, THEN conjunct2, THEN conjunct2,
      THEN spec [where x = "[\<lambda>chan. 2000, \<lambda>chan. 2000, \<lambda>chan. 2000]"], THEN conjunct1]
    Tick_bad_temperature [of
      "example_Platform\<lparr>tickState := 3,
         thermistorFilters := [example_thermistor_filter 4 4095, example_thermistor_filter 4 4095]\<rparr>"
      example_constants "\<lambda>chan. 4095"]
  by (simp add: example_constants_def example_Platform_def example_thermistor_filter_def
        ProcessReading_def IsValid_def GetSum_def analogOut_SetHeater_0)

section \<open>Re-initialising the probe filters\<close>

text \<open>
  Claim C9. Every call of \<^verbatim>\<open>SetZProbeType\<close>, in particular every call that changes the probe
  type, re-initialises both probe filters, which makes them invalid, so that \<^verbatim>\<open>ZProbe()\<close>
  returns 0 right after the call and after any run of ticks that has fed fewer than
  \<open>numZProbeReadingsAveraged\<close> samples to the on-filter or to the off-filter; each filter is
  valid again exactly when it has been fed that many samples. For the probe types 1 and 2
  the modulation pin is made an output and driven high, for type 3 it is driven low.
\<close>

theorem SetZProbeType_reinitialises:
  assumes "0 < numZProbeReadingsAveraged c"
  shows "GetZProbeType (SetZProbeType c pt s) = (if 0 \<le> pt \<and> pt \<le> 3 then pt else 0)
    \<and> zProbeOnFilter (SetZProbeType c pt s) = Init (numZProbeReadingsAveraged c) 0
    \<and> zProbeOffFilter (SetZProbeType c pt s) = Init (numZProbeReadingsAveraged c) 0
    \<and> \<not> IsValid (numZProbeReadingsAveraged c) (zProbeOnFilter (SetZProbeType c pt s))
    \<and> \<not> IsValid (numZProbeReadingsAveraged c) (zProbeOffFilter (SetZProbeType c pt s))
    \<and> ZProbe c (SetZProbeType c pt s) = 0
    \<and> (\<forall>adcs.
          (IsValid (numZProbeReadingsAveraged c) (zProbeOnFilter (Ticks c (SetZProbeType c pt s) adcs))
             \<longleftrightarrow> numZProbeReadingsAveraged c \<le> length (probeOnReadings c (SetZProbeType c pt s) adcs))
        \<and> (IsValid (numZProbeReadingsAveraged c) (zProbeOffFilter (Ticks c (SetZProbeType c pt s) adcs))
             \<longleftrightarrow> numZProbeReadingsAveraged c \<le> length (probeOffReadings c (SetZProbeType c pt s) adcs))
        \<and> (length (probeOnReadings c (SetZProbeType c pt s) adcs) < numZProbeReadingsAveraged c
             \<or> length (probeOffReadings c (SetZProbeType c pt s) adcs) < numZProbeReadingsAveraged c
             \<longrightarrow> ZProbe c (Ticks c (SetZProbeType c pt s) adcs) = 0))
    \<and> (GetZProbeType (SetZProbeType c pt s) = 1 \<or> GetZProbeType (SetZProbeType c pt s) = 2 \<longrightarrow>
          digitalOut (SetZProbeType c pt s) (zProbeModulationPin s) = Some HIGH
          \<and> pinModes (SetZProbeType c pt s) (zProbeModulationPin s) = Some OUTPUT)
    \<and> (GetZProbeType (SetZProbeType c pt s) = 3 \<longrightarrow>
          digitalOut (SetZProbeType c pt s) (zProbeModulationPin s) = Some LOW
          \<and> pinModes (SetZProbeType c pt s) (zProbeModulationPin s) = Some OUTPUT)"
proof -
  let ?N = "numZProbeReadingsAveraged c"
  let ?s' = "SetZProbeType c pt s"
  let ?new = "if 0 \<le> pt \<and> pt \<le> 3 then pt else 0"
  let ?s1 = "if ?new \<noteq> zProbeType (nvData s)
        then WriteNvData (s\<lparr>nvData := (nvData s)\<lparr>zProbeType := ?new\<rparr>\<rparr>)
        else s"
  have eq: "?s' = InitZProbe c ?s1"
    by (rule SetZProbeType_eq)
  have ty: "GetZProbeType ?s' = ?new"
    unfolding eq GetZProbeType_def nvData_InitZProbe
    by (rule zProbeModulationPin_SetZProbeType_arg(2))
  have on: "zProbeOnFilter ?s' = Init ?N 0" and off: "zProbeOffFilter ?s' = Init ?N 0"
    unfolding eq by (rule filters_InitZProbe)+
  have inv: "\<not> IsValid ?N (Init ?N 0)"
    using assms by (simp add: IsValid_def Init_def)
  have z0: "ZProbe c ?s' = 0"
    by (rule ZProbe_invalid) (simp add: on inv)
  have run: "\<forall>adcs.
          (IsValid ?N (zProbeOnFilter (Ticks c ?s' adcs)) \<longleftrightarrow> ?N \<le> length (probeOnReadings c ?s' adcs))
        \<and> (IsValid ?N (zProbeOffFilter (Ticks c ?s' adcs)) \<longleftrightarrow> ?N \<le> length (probeOffReadings c ?s' adcs))
        \<and> (length (probeOnReadings c ?s' adcs) < ?N \<or> length (probeOffReadings c ?s' adcs) < ?N
             \<longrightarrow> ZProbe c (Ticks c ?s' adcs) = 0)"
  proof
    fix adcs
    have v1: "IsValid ?N (zProbeOnFilter (Ticks c ?s' adcs)) \<longleftrightarrow> ?N \<le> length (probeOnReadings c ?s' adcs)"
      by (simp only: zProbeOnFilter_Ticks on IsValid_foldl_Init)
    have v2: "IsValid ?N (zProbeOffFilter (Ticks c ?s' adcs)) \<longleftrightarrow> ?N \<le> length (probeOffReadings c ?s' adcs)"
      by (simp only: zProbeOffFilter_Ticks off IsValid_foldl_Init)
    have "length (probeOnReadings c ?s' adcs) < ?N \<or> length (probeOffReadings c ?s' adcs) < ?N
             \<longrightarrow> ZProbe c (Ticks c ?s' adcs) = 0"
    proof
      assume "length (probeOnReadings c ?s' adcs) < ?N \<or> length (probeOffReadings c ?s' adcs) < ?N"
      with v1 v2 have "\<not> IsValid ?N (zProbeOnFilter (Ticks c ?s' adcs))
          \<or> \<not> IsValid ?N (zProbeOffFilter (Ticks c ?s' adcs))"
        by auto
      then show "ZProbe c (Ticks c ?s' adcs) = 0"
        by (rule ZProbe_invalid)
    qed
    with v1 v2 show "(IsValid ?N (zProbeOnFilter (Ticks c ?s' adcs)) \<longleftrightarrow> ?N \<le> length (probeOnReadings c ?s' adcs))
        \<and> (IsValid ?N (zProbeOffFilter (Ticks c ?s' adcs)) \<longleftrightarrow> ?N \<le> length (probeOffReadings c ?s' adcs))
        \<and> (length (probeOnReadings c ?s' adcs) < ?N \<or> length (probeOffReadings c ?s' adcs) < ?N
             \<longrightarrow> ZProbe c (Ticks c ?s' adcs) = 0)"
      by (intro conjI)
  qed
  have ty1: "zProbeType (nvData ?s1) = ?new" and pin1: "zProbeModulationPin ?s1 = zProbeModulationPin s"
    by (rule zProbeModulationPin_SetZProbeType_arg)+
  have tyeq: "zProbeType (nvData ?s1) = GetZProbeType ?s'"
    by (simp only: ty ty1)
  have ir: "GetZProbeType ?s' = 1 \<or> GetZProbeType ?s' = 2 \<longrightarrow>
          digitalOut ?s' (zProbeModulationPin s) = Some HIGH
          \<and> pinModes ?s' (zProbeModulationPin s) = Some OUTPUT"
  proof
    assume "GetZProbeType ?s' = 1 \<or> GetZProbeType ?s' = 2"
    then have "zProbeType (nvData ?s1) = 1 \<or> zProbeType (nvData ?s1) = 2"
      by (simp only: tyeq)
    then have "digitalOut (InitZProbe c ?s1) (zProbeModulationPin ?s1) = Some HIGH
          \<and> pinModes (InitZProbe c ?s1) (zProbeModulationPin ?s1) = Some OUTPUT"
      by (rule pin_InitZProbe(1))
    then show "digitalOut ?s' (zProbeModulationPin s) = Some HIGH
          \<and> pinModes ?s' (zProbeModulationPin s) = Some OUTPUT"
      by (simp only: eq pin1)
  qed
  have alt: "GetZProbeType ?s' = 3 \<longrightarrow>
          digitalOut ?s' (zProbeModulationPin s) = Some LOW
          \<and> pinModes ?s' (zProbeModulationPin s) = Some OUTPUT"
  proof
    assume "GetZProbeType ?s' = 3"
    then have "zProbeType (nvData ?s1) = 3"
      by (simp only: tyeq)
    then have "digitalOut (InitZProbe c ?s1) (zProbeModulationPin ?s1) = Some LOW
          \<and> pinModes (InitZProbe c ?s1) (zProbeModulationPin ?s1) = Some OUTPUT"
      by (rule pin_InitZProbe(2))
    then show "digitalOut ?s' (zProbeModulationPin s) = Some LOW
          \<and> pinModes ?s' (zProbeModulationPin s) = Some OUTPUT"
      by (simp only: eq pin1)
  qed
  have i1: "\<not> IsValid ?N (zProbeOnFilter ?s')" and i2: "\<not> IsValid ?N (zProbeOffFilter ?s')"
    by (simp_all add: on off inv)
  from ty on off i1 i2 z0 run ir alt show ?thesis
    by (intro conjI)
qed

theorem SetZProbeType_reinitialises_witness:
  "\<not> IsValid 8 (zProbeOnFilter (SetZProbeType example_constants 2
        (example_Platform\<lparr>zProbeOnFilter := example_probe_filter 8 100,
                           zProbeOffFilter := example_probe_filter 8 100\<rparr>)))
   \<and> ZProbe example_constants (SetZProbeType example_constants 2
        (example_Platform\<lparr>zProbeOnFilter := example_probe_filter 8 100,
                           zProbeOffFilter := example_probe_filter 8 100\<rparr>)) = 0
   \<and> ZProbe example_constants
        (Ticks example_constants (SetZProbeType example_constants 2
           (example_Platform\<lparr>zProbeOnFilter := example_probe_filter 8 100,
                              zProbeOffFilter := example_probe_filter 8 100\<rparr>))
           [\<lambda>chan. 900, \<lambda>chan. 900, \<lambda>chan. 900, \<lambda>chan. 900, \<lambda>chan. 900]) = 0
   \<and> digitalOut (SetZProbeType example_constants 2
        (example_Platform\<lparr>zProbeOnFilter := example_probe_filter 8 100,
                           zProbeOffFilter := example_probe_filter 8 100\<rparr>)) 52 = Some HIGH"
proof -
  let ?s = "example_Platform\<lparr>zProbeOnFilter := example_probe_filter 8 100,
                             zProbeOffFilter := example_probe_filter 8 100\<rparr>"
  let ?s' = "SetZProbeType example_constants 2 ?s"
  let ?adcs = "[\<lambda>chan. 900, \<lambda>chan. 900, \<lambda>chan. 900, \<lambda>chan. 900, \<lambda>chan. 900] :: (nat \<Rightarrow> uint16_t) list"
  have n8: "numZProbeReadingsAveraged example_constants = 8"
    by (simp add: example_constants_def)
  have N: "0 < numZProbeReadingsAveraged example_constants"
    by (simp add: n8)
  have pin52: "zProbeModulationPin ?s = 52"
    by (simp add: example_Platform_def)
  have "length (probeOnReadings example_constants ?s' ?adcs) \<le> length ?adcs"
    by (rule length_probeOnReadings)
  also have "length ?adcs < 8"
    by simp
  finally have len: "length (probeOnReadings example_constants ?s' ?adcs)
      < numZProbeReadingsAveraged example_constants"
    by (simp only: n8)
  note r = SetZProbeType_reinitialises [of example_constants 2 ?s, OF N]
  note c1 = r [THEN conjunct1]
  note c4 = r [THEN conjunct2, THEN conjunct2, THEN conjunct2, THEN conjunct1]
  note c6 = r [THEN conjunct2, THEN conjunct2, THEN conjunct2, THEN conjunct2, THEN conjunct2,
               THEN conjunct1]
  note c7 = r [THEN conjunct2, THEN conjunct2, THEN conjunct2, THEN conjunct2, THEN conjunct2,
               THEN conjunct2, THEN conjunct1, THEN spec [where x = ?adcs],
               THEN conjunct2, THEN conjunct2]
  note c8 = r [THEN conjunct2, THEN conjunct2, THEN conjunct2, THEN conjunct2, THEN conjunct2,
               THEN conjunct2, THEN conjunct2, THEN conjunct1]
  have w1: "\<not> IsValid 8 (zProbeOnFilter ?s')"
    using c4 unfolding n8 .
  have w2: "ZProbe example_constants ?s' = 0"
    by (rule c6)
  have w3: "ZProbe example_constants (Ticks example_constants ?s' ?adcs) = 0"
    using c7 len by blast
  have "GetZProbeType ?s' = 2"
    using c1 by simp
  with c8 have w4: "digitalOut ?s' 52 = Some HIGH"
    by (simp only: pin52) simp
  from w1 w2 w3 w4 show ?thesis
    by (intro conjI)
qed

section \<open>Loading the non-volatile record at initialisation\<close>

text \<open>
  Claim C5. If the magic value of the persisted record differs from \<^verbatim>\<open>FlashData::magicValue\<close>
  when \<^verbatim>\<open>Platform::Init\<close> reads it, every field of \<^verbatim>\<open>nvData\<close> receives its compiled-in default
  (the probe type becomes 0, the calibration of each heater is computed from the default
  resistance and Beta of that heater), the magic value is set, and the record is written
  to flash exactly once. If the magic value matches, the persisted record is used as it is
  and nothing is written. The array \<^verbatim>\<open>pidParams\<close> has \<^verbatim>\<open>HEATERS\<close> elements.
\<close>

theorem Platform_Init_loads_nvData:
  assumes "length (pidParams (flash s)) = HEATERS c"
  shows "(magic (flash s) \<noteq> magicValue c \<longrightarrow>
            nvData (Platform_Init c d neverUsed s) =
              \<lparr>magic = magicValue c, compatibility = me,
               ipAddress = IP_ADDRESS d, netMask = NET_MASK d, gateWay = GATE_WAY d,
               macAddress = MAC_ADDRESS d,
               zProbeType = 0, zProbeAxes = Z_PROBE_AXES d,
               switchZProbeParameters = ZProbeParameters_Init d 0,
               irZProbeParameters = ZProbeParameters_Init d (Z_PROBE_STOP_HEIGHT d),
               alternateZProbeParameters = ZProbeParameters_Init d (Z_PROBE_STOP_HEIGHT d),
               pidParams = map (\<lambda>i.
                  \<lparr>kI = defaultPidKis d i, kD = defaultPidKds d i, kP = defaultPidKps d i,
                   kT = defaultPidKts d i, kS = defaultPidKss d i, fullBand = defaultFullBand d i,
                   pidMin = defaultPidMin d i, pidMax = defaultPidMax d i,
                   thermistorBeta = defaultThermistorBetas d i,
                   thermistorInfR = defaultThermistor25RS d i
                                      * exp (- defaultThermistorBetas d i / (25 - ABS_ZERO)),
                   thermistorSeriesR = defaultThermistorSeriesRs d i,
                   adcLowOffset = 0, adcHighOffset = 0\<rparr>) [0..<HEATERS c],
               resetReason = 0, neverUsedRam = neverUsed\<rparr>
            \<and> GetZProbeType (Platform_Init c d neverUsed s) = 0
            \<and> flash (Platform_Init c d neverUsed s) = nvData (Platform_Init c d neverUsed s)
            \<and> flashWrites (Platform_Init c d neverUsed s) = flashWrites s + 1)
       \<and> (magic (flash s) = magicValue c \<longrightarrow>
            nvData (Platform_Init c d neverUsed s) = flash s
            \<and> flash (Platform_Init c d neverUsed s) = flash s
            \<and> flashWrites (Platform_Init c d neverUsed s) = flashWrites s)"
proof (intro conjI impI)
  assume m: "magic (flash s) = magicValue c"
  show "nvData (Platform_Init c d neverUsed s) = flash s"
    and "flash (Platform_Init c d neverUsed s) = flash s"
    and "flashWrites (Platform_Init c d neverUsed s) = flashWrites s"
    using m by (simp_all add: Platform_Init_def Let_def)
next
  assume m: "magic (flash s) \<noteq> magicValue c"
  have loop: "fold (\<lambda>i ps. ps[i := Init_pidParams d i (ps ! i)]) [0..<HEATERS c] (pidParams (flash s))
         = map (\<lambda>i. Init_pidParams d i undefined) [0..<HEATERS c]"
    using assms by (rule Init_pidParams_loop)
  show nv: "nvData (Platform_Init c d neverUsed s) =
              \<lparr>magic = magicValue c, compatibility = me,
               ipAddress = IP_ADDRESS d, netMask = NET_MASK d, gateWay = GATE_WAY d,
               macAddress = MAC_ADDRESS d,
               zProbeType = 0, zProbeAxes = Z_PROBE_AXES d,
               switchZProbeParameters = ZProbeParameters_Init d 0,
               irZProbeParameters = ZProbeParameters_Init d (Z_PROBE_STOP_HEIGHT d),
               alternateZProbeParameters = ZProbeParameters_Init d (Z_PROBE_STOP_HEIGHT d),
               pidParams = map (\<lambda>i.
                  \<lparr>kI = defaultPidKis d i, kD = defaultPidKds d i, kP = defaultPidKps d i,
                   kT = defaultPidKts d i, kS = defaultPidKss d i, fullBand = defaultFullBand d i,
                   pidMin = defaultPidMin d i, pidMax = defaultPidMax d i,
                   thermistorBeta = defaultThermistorBetas d i,
                   thermistorInfR = defaultThermistor25RS d i
                                      * exp (- defaultThermistorBetas d i / (25 - ABS_ZERO)),
                   thermistorSeriesR = defaultThermistorSeriesRs d i,
                   adcLowOffset = 0, adcHighOffset = 0\<rparr>) [0..<HEATERS c],
               resetReason = 0, neverUsedRam = neverUsed\<rparr>"
  proof -
    have "nvData (Platform_Init c d neverUsed s) =
            (flash s)
              \<lparr>compatibility := me,
               ipAddress := IP_ADDRESS d,
               netMask := NET_MASK d,
               gateWay := GATE_WAY d,
               macAddress := MAC_ADDRESS d,
               zProbeType := 0,
               zProbeAxes := Z_PROBE_AXES d,
               switchZProbeParameters := ZProbeParameters_Init d 0,
               irZProbeParameters := ZProbeParameters_Init d (Z_PROBE_STOP_HEIGHT d),
               alternateZProbeParameters := ZProbeParameters_Init d (Z_PROBE_STOP_HEIGHT d),
               pidParams := map (\<lambda>i. Init_pidParams d i undefined) [0..<HEATERS c],
               resetReason := 0,
               neverUsedRam := neverUsed,
               magic := magicValue c\<rparr>"
      using m by (simp add: Platform_Init_def Let_def WriteNvData_def loop)
    then show ?thesis
      by (cases "flash s") (simp add: Init_pidParams_eq)
  qed
  show "GetZProbeType (Platform_Init c d neverUsed s) = 0"
    by (simp add: GetZProbeType_def nv)
  show "flash (Platform_Init c d neverUsed s) = nvData (Platform_Init c d neverUsed s)"
    using m by (simp add: Platform_Init_def Let_def WriteNvData_def)
  show "flashWrites (Platform_Init c d neverUsed s) = flashWrites s + 1"
    using m by (simp add: Platform_Init_def Let_def WriteNvData_def)
qed

theorem Platform_Init_loads_nvData_witness:
  "flashWrites (Platform_Init example_constants example_defaults 1000
       (example_Platform\<lparr>flash := example_nvData\<lparr>magic := 0, zProbeType := 3\<rparr>\<rparr>)) = 1
   \<and> GetZProbeType (Platform_Init example_constants example_defaults 1000
       (example_Platform\<lparr>flash := example_nvData\<lparr>magic := 0, zProbeType := 3\<rparr>\<rparr>)) = 0
   \<and> flashWrites (Platform_Init example_constants example_defaults 1000 example_Platform) = 0
   \<and> nvData (Platform_Init example_constants example_defaults 1000 example_Platform)
       = example_nvData"
proof -
  let ?s1 = "example_Platform\<lparr>flash := example_nvData\<lparr>magic := 0, zProbeType := 3\<rparr>\<rparr>"
  have len1: "length (pidParams (flash ?s1)) = HEATERS example_constants"
    by (simp add: example_constants_def example_nvData_def)
  have m1: "magic (flash ?s1) \<noteq> magicValue example_constants"
    by (simp add: example_constants_def)
  have fw1: "flashWrites ?s1 = 0"
    by (simp add: example_Platform_def)
  note r1 = Platform_Init_loads_nvData [of ?s1 example_constants example_defaults 1000,
              OF len1, THEN conjunct1, rule_format, OF m1]
  have w1: "flashWrites (Platform_Init example_constants example_defaults 1000 ?s1) = 1"
    using r1 fw1 by simp
  have w2: "GetZProbeType (Platform_Init example_constants example_defaults 1000 ?s1) = 0"
    using r1 by blast
  have len2: "length (pidParams (flash example_Platform)) = HEATERS example_constants"
    by (simp add: example_constants_def example_nvData_def example_Platform_def)
  have m2: "magic (flash example_Platform) = magicValue example_constants"
    by (simp add: example_constants_def example_nvData_def example_Platform_def)
  have fw2: "flashWrites example_Platform = 0" "flash example_Platform = example_nvData"
    by (simp_all add: example_Platform_def)
  note r2 = Platform_Init_loads_nvData [of example_Platform example_constants example_defaults 1000,
              OF len2, THEN conjunct2, rule_format, OF m2]
  have w3: "flashWrites (Platform_Init example_constants example_defaults 1000 example_Platform) = 0"
    using r2 fw2 by simp
  have w4: "nvData (Platform_Init example_constants example_defaults 1000 example_Platform)
       = example_nvData"
    using r2 fw2 by simp
  from w1 w2 w3 w4 show ?thesis
    by (intro conjI)
qed

section \<open>Writes of the non-volatile record by the setters\<close>

text \<open>
  Each of the following setters compares the new value with the stored one and calls
  \<^verbatim>\<open>WriteNvData\<close> only when they differ, so that a second call with the same value writes
  nothing. The network arrays have four bytes and \<^verbatim>\<open>pidParams\<close> has \<^verbatim>\<open>HEATERS\<close> elements.
\<close>

lemma flashWrites_WriteNvData: "flashWrites (WriteNvData s) = flashWrites s + 1"
  by (simp add: WriteNvData_def)

lemma flashWrites_InitZProbe: "flashWrites (InitZProbe c s) = flashWrites s"
  by (simp add: InitZProbe_def Let_def SetZProbing_def digitalWriteNonDue_def pinModeNonDue_def)

lemma flashWrites_SetZProbeAxes:
  "flashWrites (SetZProbeAxes c axes s) = flashWrites s + 1"
  by (simp add: SetZProbeAxes_def WriteNvData_def)

lemma flashWrites_SetZProbeType:
  "flashWrites (SetZProbeType c pt s) =
     (if (if 0 \<le> pt \<and> pt \<le> 3 then pt else 0) \<noteq> zProbeType (nvData s)
      then flashWrites s + 1 else flashWrites s)"
  by (simp add: SetZProbeType_def Let_def flashWrites_InitZProbe flashWrites_WriteNvData)

lemma zProbeType_SetZProbeType:
  "zProbeType (nvData (SetZProbeType c pt s)) = (if 0 \<le> pt \<and> pt \<le> 3 then pt else 0)"
  by (simp add: SetZProbeType_def Let_def nvData_InitZProbe nvData_WriteNvData)

lemma SetZProbeType_second_call:
  "flashWrites (SetZProbeType c pt (SetZProbeType c pt s)) = flashWrites (SetZProbeType c pt s)"
  by (simp only: flashWrites_SetZProbeType[of c pt "SetZProbeType c pt s"] zProbeType_SetZProbeType)
     simp

lemma SetEmulating_second_call:
  "flashWrites (SetEmulating v (SetEmulating v s)) = flashWrites (SetEmulating v s)"
  by (simp add: SetEmulating_def Let_def WriteNvData_def)

lemma SetZProbeParameters_second_call:
  "flashWrites (snd (SetZProbeParameters v (snd (SetZProbeParameters v s))))
     = flashWrites (snd (SetZProbeParameters v s))"
  by (simp add: SetZProbeParameters_def WriteNvData_def)

lemma SetPidParameters_second_call:
  assumes "length (pidParams (nvData s)) = HEATERS c"
  shows "flashWrites (SetPidParameters c heater v (SetPidParameters c heater v s))
     = flashWrites (SetPidParameters c heater v s)"
  using assms by (simp add: SetPidParameters_def WriteNvData_def PidParameters_eq_def)

lemma upt_0_4: "[0..<4] = [0, 1, 2, 3]"
  by code_simp

lemma UpdateNetworkAddress_loop_second:
  assumes "length dst = 4"
  shows "UpdateNetworkAddress_loop (fst (UpdateNetworkAddress_loop dst src)) src
           = (fst (UpdateNetworkAddress_loop dst src), False)"
proof -
  obtain a b c d where dst: "dst = [a, b, c, d]"
    using assms by (auto simp: length_Suc_conv numeral_eq_Suc)
  show ?thesis
    by (simp add: UpdateNetworkAddress_loop_def upt_0_4 dst)
qed

lemma ipAddress_SetIPAddress:
  "ipAddress (nvData (SetIPAddress ip s)) = fst (UpdateNetworkAddress_loop (ipAddress (nvData s)) ip)"
  by (simp add: SetIPAddress_def Let_def WriteNvData_def split: prod.splits)

lemma SetIPAddress_second_call:
  assumes "length (ipAddress (nvData s)) = 4"
  shows "flashWrites (SetIPAddress ip (SetIPAddress ip s)) = flashWrites (SetIPAddress ip s)"
proof -
  have "UpdateNetworkAddress_loop (ipAddress (nvData (SetIPAddress ip s))) ip
          = (ipAddress (nvData (SetIPAddress ip s)), False)"
    unfolding ipAddress_SetIPAddress
    by (rule UpdateNetworkAddress_loop_second) (fact assms)
  then show ?thesis
    by (simp add: SetIPAddress_def[of ip "SetIPAddress ip s"])
qed

lemma gateWay_SetGateWay:
  "gateWay (nvData (SetGateWay gw s)) = fst (UpdateNetworkAddress_loop (gateWay (nvData s)) gw)"
  by (simp add: SetGateWay_def Let_def WriteNvData_def split: prod.splits)

lemma SetGateWay_second_call:
  assumes "length (gateWay (nvData s)) = 4"
  shows "flashWrites (SetGateWay gw (SetGateWay gw s)) = flashWrites (SetGateWay gw s)"
proof -
  have "UpdateNetworkAddress_loop (gateWay (nvData (SetGateWay gw s))) gw
          = (gateWay (nvData (SetGateWay gw s)), False)"
    unfolding gateWay_SetGateWay
    by (rule UpdateNetworkAddress_loop_second) (fact assms)
  then show ?thesis
    by (simp add: SetGateWay_def[of gw "SetGateWay gw s"])
qed

lemma netMask_SetNetMask:
  "netMask (nvData (SetNetMask nm s)) = fst (UpdateNetworkAddress_loop (netMask (nvData s)) nm)"
  by (simp add: SetNetMask_def Let_def WriteNvData_def split: prod.splits)

lemma SetNetMask_second_call:
  assumes "length (netMask (nvData s)) = 4"
  shows "flashWrites (SetNetMask nm (SetNetMask nm s)) = flashWrites (SetNetMask nm s)"
proof -
  have "UpdateNetworkAddress_loop (netMask (nvData (SetNetMask nm s))) nm
          = (netMask (nvData (SetNetMask nm s)), False)"
    unfolding netMask_SetNetMask
    by (rule UpdateNetworkAddress_loop_second) (fact assms)
  then show ?thesis
    by (simp add: SetNetMask_def[of nm "SetNetMask nm s"])
qed

lemma upt_0_3: "[0..<3] = [0, 1, 2]"
  by code_simp

text \<open>
  Claim C4 says that every configuration setter, the one for the probe axes included,
  writes the non-volatile record at most once when it is called twice with the same value.
  \<^verbatim>\<open>Platform::SetZProbeAxes\<close> does not compare: it calls \<^verbatim>\<open>WriteNvData\<close> on every call. Called
  twice with the flags that are already stored, it leaves \<^verbatim>\<open>nvData\<close> unchanged and writes the
  record twice.
\<close>

theorem SetZProbeAxes_same_value_writes_twice:
  "zProbeAxes (nvData example_Platform) = [True, False, True]
   \<and> nvData (SetZProbeAxes example_constants [True, False, True] example_Platform)
        = nvData example_Platform
   \<and> flashWrites example_Platform = 0
   \<and> flashWrites (SetZProbeAxes example_constants [True, False, True] example_Platform) = 1
   \<and> flashWrites (SetZProbeAxes example_constants [True, False, True]
         (SetZProbeAxes example_constants [True, False, True] example_Platform)) = 2"
proof -
  have a: "zProbeAxes (nvData example_Platform) = [True, False, True]"
    by (simp add: example_Platform_def example_nvData_def)
  have b: "nvData (SetZProbeAxes example_constants [True, False, True] example_Platform)
        = nvData example_Platform"
    by (simp add: SetZProbeAxes_def WriteNvData_def a example_constants_def upt_0_3)
  have c: "flashWrites example_Platform = 0"
    by (simp add: example_Platform_def)
  have d: "flashWrites (SetZProbeAxes example_constants [True, False, True] example_Platform) = 1"
    by (simp add: flashWrites_SetZProbeAxes c)
  have e: "flashWrites (SetZProbeAxes example_constants [True, False, True]
         (SetZProbeAxes example_constants [True, False, True] example_Platform)) = 2"
    by (simp add: flashWrites_SetZProbeAxes c)
  from a b c d e show ?thesis
    by (intro conjI)
qed

end
